theory Spec2Isabelle
  imports Main
begin

section \<open>acdiag: diagnostics and logging (diag.go)\<close>

text \<open>
  A shallow embedding of \<^verbatim>\<open>diag.go\<close>. Go strings are byte sequences, modelled as
  \<open>string\<close>. Go's \<^verbatim>\<open>int\<close> values (stack depth, line number, process id) are \<open>int\<close>;
  the code does no arithmetic on them. A \<^verbatim>\<open>time.Time\<close> is the number of nanoseconds since
  the zero \<^verbatim>\<open>Time\<close> and a \<^verbatim>\<open>time.Duration\<close> a number of nanoseconds, both \<open>int\<close>:
  \<^verbatim>\<open>t.Add(d)\<close> is \<open>t + d\<close> and \<^verbatim>\<open>t.After(u)\<close> is \<open>u < t\<close>.
  A run-time panic is a value of type \<open>error\<close>; every function that can panic returns
  \<open>error + 'a\<close>.
\<close>

subsection \<open>Panics\<close>

datatype error =
    IndexOutOfRange
  | SliceBoundsOutOfRange
  | NilDereference
  | NilMapAssignment

definition bindE :: "error + 'a \<Rightarrow> ('a \<Rightarrow> error + 'b) \<Rightarrow> error + 'b" where
  "bindE m f = (case m of Inl e \<Rightarrow> Inl e | Inr x \<Rightarrow> f x)"

subsection \<open>Data\<close>

type_synonym time = int
type_synonym duration = int

text \<open>\<^verbatim>\<open>type Diag struct\<close>\<close>

record Diag =
  section' :: string
  uplevel :: int
  mailTo :: string
  mailFrom :: string
  progname :: string
  debugAll :: bool
  useStderr :: bool

text \<open>
  \<^verbatim>\<open>type Config struct\<close>. A Go map is a reference that may be nil: \<open>None\<close> is the nil map,
  which reads as empty and panics on assignment.
\<close>

record Config =
  MailTo :: string
  MailFrom :: string
  MailRateLimit :: duration
  Sendmail :: string
  Facility :: string
  ProgName :: string
  Debug :: "(string \<rightharpoonup> bool) option"

text \<open>\<^verbatim>\<open>type logconf struct\<close>; a \<^verbatim>\<open>syslog.Priority\<close> is an \<^verbatim>\<open>int\<close>.\<close>

type_synonym Priority = int

record logconf =
  logprio :: Priority
  toStderr :: bool
  toEmail :: bool
  withInfo :: bool
  withTrace :: bool

text \<open>The severities and facilities of \<^verbatim>\<open>log/syslog\<close>.\<close>

definition LOG_EMERG :: Priority where "LOG_EMERG = 0"
definition LOG_ALERT :: Priority where "LOG_ALERT = 1"
definition LOG_CRIT :: Priority where "LOG_CRIT = 2"
definition LOG_ERR :: Priority where "LOG_ERR = 3"
definition LOG_WARNING :: Priority where "LOG_WARNING = 4"
definition LOG_NOTICE :: Priority where "LOG_NOTICE = 5"
definition LOG_INFO :: Priority where "LOG_INFO = 6"
definition LOG_DEBUG :: Priority where "LOG_DEBUG = 7"

definition LOG_KERN :: Priority where "LOG_KERN = 0"
definition LOG_USER :: Priority where "LOG_USER = 8"
definition LOG_MAIL :: Priority where "LOG_MAIL = 16"
definition LOG_DAEMON :: Priority where "LOG_DAEMON = 24"
definition LOG_AUTH :: Priority where "LOG_AUTH = 32"
definition LOG_SYSLOG :: Priority where "LOG_SYSLOG = 40"
definition LOG_LPR :: Priority where "LOG_LPR = 48"
definition LOG_NEWS :: Priority where "LOG_NEWS = 56"
definition LOG_UUCP :: Priority where "LOG_UUCP = 64"
definition LOG_CRON :: Priority where "LOG_CRON = 72"
definition LOG_AUTHPRIV :: Priority where "LOG_AUTHPRIV = 80"
definition LOG_FTP :: Priority where "LOG_FTP = 88"
definition LOG_LOCAL0 :: Priority where "LOG_LOCAL0 = 128"
definition LOG_LOCAL1 :: Priority where "LOG_LOCAL1 = 136"
definition LOG_LOCAL2 :: Priority where "LOG_LOCAL2 = 144"
definition LOG_LOCAL3 :: Priority where "LOG_LOCAL3 = 152"
definition LOG_LOCAL4 :: Priority where "LOG_LOCAL4 = 160"
definition LOG_LOCAL5 :: Priority where "LOG_LOCAL5 = 168"
definition LOG_LOCAL6 :: Priority where "LOG_LOCAL6 = 176"
definition LOG_LOCAL7 :: Priority where "LOG_LOCAL7 = 184"

text \<open>An open \<^verbatim>\<open>*syslog.Writer\<close>: the facility and tag it was opened with.\<close>

record Writer =
  w_priority :: Priority
  w_tag :: string

text \<open>One start of the mail transport: the command, its arguments, and what is written
  to its standard input.\<close>

record mail =
  m_command :: string
  m_args :: "string list"
  m_stdin :: string

subsection \<open>The environment of a call\<close>

text \<open>
  What the code obtains from the Go runtime, the standard library and the operating
  system during one call. \<open>Caller\<close> is \<^verbatim>\<open>runtime.Caller\<close> seen from the frame of
  \<^verbatim>\<open>diag\<close> (\<open>None\<close> when \<^verbatim>\<open>ok\<close> is false, else the program counter, file and line);
  \<open>FuncForPC\<close> gives the name of the function at a program counter (\<open>None\<close> for a nil
  \<^verbatim>\<open>*Func\<close>); \<open>Now\<close> is \<^verbatim>\<open>time.Now()\<close>; \<open>syslog_New\<close> is \<open>None\<close> when
  \<^verbatim>\<open>syslog.New\<close> returns an error (and a nil writer); \<open>hostname\<close> and \<open>g_progname\<close> are the
  package variables set once by \<^verbatim>\<open>init\<close>; \<open>Stack\<close> is the dump of all goroutine stacks;
  \<open>unicode_ToLower\<close> is \<^verbatim>\<open>strings.ToLower\<close> on a string that is not pure ASCII.
\<close>

record 'a env =
  Sprintf :: "string \<Rightarrow> 'a list \<Rightarrow> string"
  Caller :: "int \<Rightarrow> (nat \<times> string \<times> int) option"
  FuncForPC :: "nat \<Rightarrow> string option"
  Now :: time
  syslog_New :: "Priority \<Rightarrow> string \<Rightarrow> Writer option"
  hostname :: string
  g_progname :: string
  Getpid :: int
  Stack :: string
  unicode_ToLower :: "string \<Rightarrow> string"

subsection \<open>The state of the package\<close>

text \<open>
  \<open>objs\<close> is the store of allocated \<^verbatim>\<open>Diag\<close> values: a \<^verbatim>\<open>*Diag\<close> is \<open>None\<close> (nil) or the
  index of a cell. \<open>config\<close> is the package variable \<^verbatim>\<open>config\<close>, a \<^verbatim>\<open>*Config\<close> (\<open>None\<close> is
  nil) together with the value it points to. \<open>mailSent\<close> and \<open>slog\<close> are the package
  variables of these names. The other fields record the effects on the outside: the text
  of each \<^verbatim>\<open>Fprintln(os.Stderr, ...)\<close>, each message given to the syslog writer with the
  method it was given to, each start of the mail transport, and the status of
  \<^verbatim>\<open>os.Exit\<close>.
\<close>

type_synonym ptr = "nat option"

record world =
  objs :: "Diag list"
  config :: "Config option"
  mailSent :: "string \<rightharpoonup> time"
  slog :: "Writer option"
  stderr_out :: "string list"
  syslog_out :: "(Priority \<times> string) list"
  mailed :: "mail list"
  exited :: "int option"

definition deref :: "world \<Rightarrow> ptr \<Rightarrow> error + Diag" where
  "deref st p =
     (case p of
        None \<Rightarrow> Inl NilDereference
      | Some a \<Rightarrow> if a < length (objs st) then Inr (objs st ! a) else Inl NilDereference)"

text \<open>\<^verbatim>\<open>&n\<close> for a fresh local \<^verbatim>\<open>n\<close>: a new cell.\<close>

definition alloc :: "Diag \<Rightarrow> world \<Rightarrow> ptr \<times> world" where
  "alloc d st = (Some (length (objs st)), st\<lparr>objs := objs st @ [d]\<rparr>)"

text \<open>An assignment through a \<^verbatim>\<open>*Diag\<close>.\<close>

definition store :: "ptr \<Rightarrow> (Diag \<Rightarrow> Diag) \<Rightarrow> world \<Rightarrow> error + world" where
  "store p f st =
     (case p of
        None \<Rightarrow> Inl NilDereference
      | Some a \<Rightarrow>
          if a < length (objs st) then Inr (st\<lparr>objs := (objs st)[a := f (objs st ! a)]\<rparr>)
          else Inl NilDereference)"

text \<open>The package variables as initialised: \<^verbatim>\<open>defaultDiag\<close> is cell 0 (the flag \<^verbatim>\<open>-D\<close>
  may set its \<open>debugAll\<close>), \<^verbatim>\<open>config = &Config{}\<close>, an empty \<^verbatim>\<open>mailSent\<close>, a nil
  \<^verbatim>\<open>slog\<close>.\<close>

definition defaultDiag :: ptr where
  "defaultDiag = Some 0"

definition zeroConfig :: Config where
  "zeroConfig = \<lparr>MailTo = [], MailFrom = [], MailRateLimit = 0, Sendmail = [],
     Facility = [], ProgName = [], Debug = None\<rparr>"

definition init_world :: "bool \<Rightarrow> world" where
  "init_world flagD =
     \<lparr>objs = [\<lparr>section' = ''default'', uplevel = 3, mailTo = [], mailFrom = [],
               progname = [], debugAll = flagD, useStderr = True\<rparr>],
      config = Some zeroConfig, mailSent = Map.empty, slog = None,
      stderr_out = [], syslog_out = [], mailed = [], exited = None\<rparr>"

subsection \<open>Strings\<close>

definition nl :: char where
  "nl = CHR 0x0A"

text \<open>\<^verbatim>\<open>strings.LastIndexByte\<close>, and \<^verbatim>\<open>strings.LastIndex\<close> with a one-byte separator:
  the index of the last occurrence, or -1.\<close>

fun LastIndexByte :: "string \<Rightarrow> char \<Rightarrow> int" where
  "LastIndexByte [] c = - 1"
| "LastIndexByte (x # xs) c =
     (let r = LastIndexByte xs c
      in if r \<noteq> - 1 then r + 1 else if x = c then 0 else - 1)"

text \<open>The slice expressions \<^verbatim>\<open>s[lo:hi]\<close> and \<^verbatim>\<open>s[lo:]\<close>, which panic out of range.\<close>

definition slice :: "string \<Rightarrow> int \<Rightarrow> int \<Rightarrow> error + string" where
  "slice s lo hi =
     (if 0 \<le> lo \<and> lo \<le> hi \<and> hi \<le> int (length s)
      then Inr (take (nat (hi - lo)) (drop (nat lo) s))
      else Inl SliceBoundsOutOfRange)"

definition slice_from :: "string \<Rightarrow> int \<Rightarrow> error + string" where
  "slice_from s lo = slice s lo (int (length s))"

text \<open>The verb \<^verbatim>\<open>%d\<close> of \<^verbatim>\<open>fmt\<close> on an \<^verbatim>\<open>int\<close>: decimal digits, with a sign when
  negative.\<close>

fun digits :: "nat \<Rightarrow> string" where
  "digits n =
     (if n < 10 then [char_of (48 + n)]
      else digits (n div 10) @ [char_of (48 + n mod 10)])"

declare digits.simps [simp del]

definition itoa :: "int \<Rightarrow> string" where
  "itoa i = (if i < 0 then CHR ''-'' # digits (nat (- i)) else digits (nat i))"

text \<open>\<^verbatim>\<open>strings.ToLower\<close>: on a pure ASCII string the letters A to Z are mapped to a to z;
  any other string goes through the Unicode tables.\<close>

definition lowerByte :: "char \<Rightarrow> char" where
  "lowerByte c =
     (let b = (of_char c :: nat)
      in if 65 \<le> b \<and> b \<le> 90 then char_of (b + 32) else c)"

definition ToLower :: "'a env \<Rightarrow> string \<Rightarrow> string" where
  "ToLower env s =
     (if list_all (\<lambda>c. of_char c < (128::nat)) s then map lowerByte s
      else unicode_ToLower env s)"

subsection \<open>Handles\<close>

text \<open>\<^verbatim>\<open>func (d *Diag) WithMailTo(e string) *Diag\<close>\<close>

definition Diag_WithMailTo :: "ptr \<Rightarrow> string \<Rightarrow> world \<Rightarrow> error + (ptr \<times> world)" where
  "Diag_WithMailTo d e st =
     bindE (deref st d) (\<lambda>n. Inr (alloc (n\<lparr>mailTo := e\<rparr>) st))"

text \<open>\<^verbatim>\<open>func (d *Diag) WithMailFrom(e string) *Diag\<close>\<close>

definition Diag_WithMailFrom :: "ptr \<Rightarrow> string \<Rightarrow> world \<Rightarrow> error + (ptr \<times> world)" where
  "Diag_WithMailFrom d e st =
     bindE (deref st d) (\<lambda>n. Inr (alloc (n\<lparr>mailFrom := e\<rparr>) st))"

text \<open>\<^verbatim>\<open>func Logger(sect string) *Diag\<close>\<close>

definition Logger :: "string \<Rightarrow> world \<Rightarrow> ptr \<times> world" where
  "Logger sect st =
     alloc \<lparr>section' = sect, uplevel = 2, mailTo = [], mailFrom = [], progname = [],
            debugAll = False, useStderr = True\<rparr> st"

text \<open>\<^verbatim>\<open>func (d *Diag) Logger(sect string) *Diag\<close>\<close>

definition Diag_Logger :: "ptr \<Rightarrow> string \<Rightarrow> world \<Rightarrow> error + (ptr \<times> world)" where
  "Diag_Logger d sect st =
     bindE (deref st d) (\<lambda>n. Inr (alloc (n\<lparr>section' := sect\<rparr>) st))"

text \<open>\<^verbatim>\<open>func (d *Diag) SetDebugAll(x bool)\<close>\<close>

definition Diag_SetDebugAll :: "ptr \<Rightarrow> bool \<Rightarrow> world \<Rightarrow> error + world" where
  "Diag_SetDebugAll d x st = store d (\<lambda>n. n\<lparr>debugAll := x\<rparr>) st"

text \<open>\<^verbatim>\<open>func (d *Diag) SetStderr(x bool)\<close>\<close>

definition Diag_SetStderr :: "ptr \<Rightarrow> bool \<Rightarrow> world \<Rightarrow> error + world" where
  "Diag_SetStderr d x st = store d (\<lambda>n. n\<lparr>useStderr := x\<rparr>) st"

subsection \<open>Configuration\<close>

text \<open>\<^verbatim>\<open>var prioName = map[string]syslog.Priority{...}\<close>\<close>

definition prioName :: "string \<rightharpoonup> Priority" where
  "prioName = map_of
     [(''kern'', LOG_KERN), (''user'', LOG_USER), (''mail'', LOG_MAIL),
      (''daemon'', LOG_DAEMON), (''auth'', LOG_AUTH), (''syslog'', LOG_SYSLOG),
      (''lpr'', LOG_LPR), (''news'', LOG_NEWS), (''uucp'', LOG_UUCP),
      (''cron'', LOG_CRON), (''authpriv'', LOG_AUTHPRIV), (''ftp'', LOG_FTP),
      (''local0'', LOG_LOCAL0), (''local1'', LOG_LOCAL1), (''local2'', LOG_LOCAL2),
      (''local3'', LOG_LOCAL3), (''local4'', LOG_LOCAL4), (''local5'', LOG_LOCAL5),
      (''local6'', LOG_LOCAL6), (''local7'', LOG_LOCAL7)]"

text \<open>\<^verbatim>\<open>func openSyslog(fac string)\<close>\<close>

definition openSyslog :: "'a env \<Rightarrow> string \<Rightarrow> world \<Rightarrow> world" where
  "openSyslog env fac st =
     (case prioName (ToLower env fac) of
        None \<Rightarrow> st
      | Some p \<Rightarrow> st\<lparr>slog := syslog_New env p (g_progname env)\<rparr>)"

text \<open>\<^verbatim>\<open>func SetConfig(cf Config)\<close>\<close>

definition SetConfig :: "'a env \<Rightarrow> Config \<Rightarrow> world \<Rightarrow> world" where
  "SetConfig env cf st =
     (let st1 = st\<lparr>config := Some cf\<rparr>
      in if slog st1 = None then openSyslog env (Facility cf) st1 else st1)"

text \<open>\<^verbatim>\<open>func getConfig() *Config\<close>\<close>

definition getConfig :: "world \<Rightarrow> Config option" where
  "getConfig st = config st"

text \<open>\<^verbatim>\<open>func SetDebugFlag(f string, v bool)\<close>: the assignment \<^verbatim>\<open>config.Debug[f] = v\<close>.\<close>

definition SetDebugFlag :: "string \<Rightarrow> bool \<Rightarrow> world \<Rightarrow> error + world" where
  "SetDebugFlag f v st =
     (case config st of
        None \<Rightarrow> Inl NilDereference
      | Some cf \<Rightarrow>
          (case Debug cf of
             None \<Rightarrow> Inl NilMapAssignment
           | Some m \<Rightarrow> Inr (st\<lparr>config := Some (cf\<lparr>Debug := Some (m(f \<mapsto> v))\<rparr>)\<rparr>)))"

text \<open>Reading \<^verbatim>\<open>cf.Debug[k]\<close>: false for a nil map and for a missing key.\<close>

definition debugFlag :: "Config \<Rightarrow> string \<Rightarrow> bool" where
  "debugFlag cf k =
     (case Debug cf of
        None \<Rightarrow> False
      | Some m \<Rightarrow> (case m k of None \<Rightarrow> False | Some b \<Rightarrow> b))"

subsection \<open>Rate limiting\<close>

definition rateLimit :: duration where
  "rateLimit = 60000000000"

definition stackMax :: nat where
  "stackMax = 1048576"

text \<open>Reading \<^verbatim>\<open>mailSent[addr]\<close>: the zero time for a missing key.\<close>

definition lastSent :: "world \<Rightarrow> string \<Rightarrow> time" where
  "lastSent st addr = (case mailSent st addr of None \<Rightarrow> 0 | Some t \<Rightarrow> t)"

text \<open>\<^verbatim>\<open>func (cf *Config) rateLimited(addr string) bool\<close>\<close>

definition rateLimited :: "'a env \<Rightarrow> Config \<Rightarrow> string \<Rightarrow> world \<Rightarrow> bool \<times> world" where
  "rateLimited env cf addr st =
     (let now = Now env;
          sent = lastSent st addr;
          limit = (if MailRateLimit cf = 0 then rateLimit else MailRateLimit cf)
      in if sent + limit < now
         then (False, st\<lparr>mailSent := (mailSent st)(addr \<mapsto> now)\<rparr>)
         else (True, st))"

subsection \<open>Formatting\<close>

text \<open>\<^verbatim>\<open>func cleanFilename(file string) string\<close>: trim full pathname to dir/file.go\<close>

definition cleanFilename :: "string \<Rightarrow> error + string" where
  "cleanFilename file =
     (let si = LastIndexByte file CHR ''/''
      in if si = - 1 then Inr file
         else bindE (slice file 0 (si - 1)) (\<lambda>pre.
                let ssi = LastIndexByte pre CHR ''/'';
                    si' = (if ssi \<noteq> - 1 then ssi else si)
                in slice_from file (si' + 1)))"

text \<open>\<^verbatim>\<open>func cleanFunName(n string) string\<close>\<close>

definition cleanFunName :: "string \<Rightarrow> error + string" where
  "cleanFunName n =
     (let dot = LastIndexByte n CHR ''.''
      in if dot \<noteq> - 1 then slice_from n (dot + 1) else Inr n)"

text \<open>Lines 239 to 256 of \<^verbatim>\<open>diag\<close>: the call-site prefix, for a handle \<open>d\<close> already read.
  \<^verbatim>\<open>fmt.Sprintf("%s:%d %s(): ", fileshort, line, funName)\<close> has a fixed format and is
  written out.\<close>

definition callsite :: "'a env \<Rightarrow> Diag \<Rightarrow> error + string" where
  "callsite env d =
     (case Caller env (uplevel d) of
        None \<Rightarrow> Inr ''?:?: ''
      | Some (pc, file, line) \<Rightarrow>
          bindE (cleanFilename file) (\<lambda>fileshort.
            case FuncForPC env pc of
              Some name \<Rightarrow>
                bindE (cleanFunName name) (\<lambda>funName.
                  Inr (fileshort @ '':'' @ itoa line @ '' '' @ funName @ ''(): ''))
            | None \<Rightarrow> Inr (fileshort @ '':'' @ itoa line @ '' ?(): '')))"

text \<open>Lines 258 to 261 of \<^verbatim>\<open>diag\<close>: remove a trailing newline. The index expression
  \<^verbatim>\<open>format[len(format)-1]\<close> panics on the empty string.\<close>

definition trimNewline :: "string \<Rightarrow> error + string" where
  "trimNewline format =
     (if format = [] then Inl IndexOutOfRange
      else if last format = nl then Inr (butlast format)
      else Inr format)"

text \<open>Lines 237 to 263 of \<^verbatim>\<open>diag\<close>: the text \<^verbatim>\<open>out\<close> that goes to the sinks.\<close>

definition diag_text ::
  "'a env \<Rightarrow> logconf \<Rightarrow> ptr \<Rightarrow> string \<Rightarrow> 'a list \<Rightarrow> world \<Rightarrow> error + string" where
  "diag_text env cf d format args st =
     bindE (if withInfo cf then bindE (deref st d) (callsite env) else Inr [])
       (\<lambda>pre. bindE (trimNewline format)
         (\<lambda>format'. Inr (pre @ Sprintf env format' args)))"

subsection \<open>Sinks\<close>

text \<open>\<^verbatim>\<open>func sendToSyslog(prio syslog.Priority, msg string)\<close>: each case calls a method of
  \<^verbatim>\<open>slog\<close>, which dereferences it.\<close>

definition sendToSyslog :: "Priority \<Rightarrow> string \<Rightarrow> world \<Rightarrow> error + world" where
  "sendToSyslog prio msg st =
     (if prio = LOG_DEBUG \<or> prio = LOG_INFO \<or> prio = LOG_NOTICE \<or> prio = LOG_WARNING
         \<or> prio = LOG_ERR \<or> prio = LOG_ALERT \<or> prio = LOG_EMERG \<or> prio = LOG_CRIT
      then (case slog st of
              None \<Rightarrow> Inl NilDereference
            | Some w \<Rightarrow> Inr (st\<lparr>syslog_out := syslog_out st @ [(prio, msg)]\<rparr>))
      else Inr st)"

text \<open>The message written to the standard input of the mail transport by
  \<^verbatim>\<open>sendEmail\<close>.\<close>

definition mailText :: "'a env \<Rightarrow> Diag \<Rightarrow> string \<Rightarrow> bool \<Rightarrow> string" where
  "mailText env dcf txt trace =
     ''To: '' @ mailTo dcf @ [nl] @ ''From: '' @ mailFrom dcf @ [nl]
       @ ''Subject: '' @ progname dcf @ '' daemon error'' @ [nl, nl]
     @ ''an error was detected in '' @ progname dcf @ [nl, nl]
       @ ''host:   '' @ hostname env @ [nl]
       @ ''pid:    '' @ itoa (Getpid env) @ [nl, nl]
     @ ''error:'' @ [nl] @ txt @ [nl]
     @ (if trace then [nl, nl] @ take stackMax (Stack env) @ [nl] else [])"

text \<open>\<^verbatim>\<open>func sendEmail(d *Diag, txt string, withTrace bool)\<close>. The errors of starting and
  waiting for the command are dropped by the code; the model records the start.\<close>

definition sendEmail :: "'a env \<Rightarrow> ptr \<Rightarrow> string \<Rightarrow> bool \<Rightarrow> world \<Rightarrow> error + world" where
  "sendEmail env d txt trace st =
     (case getConfig st of
        None \<Rightarrow> Inr st
      | Some cf \<Rightarrow>
          bindE (deref st d) (\<lambda>dcf0.
            let dcf1 = (if mailTo dcf0 = [] then dcf0\<lparr>mailTo := MailTo cf\<rparr> else dcf0);
                dcf2 = (if mailFrom dcf1 = [] then dcf1\<lparr>mailFrom := MailFrom cf\<rparr> else dcf1);
                dcf3 = (if progname dcf2 = [] then dcf2\<lparr>progname := ProgName cf\<rparr> else dcf2);
                dcf = (if progname dcf3 = [] then dcf3\<lparr>progname := g_progname env\<rparr> else dcf3)
            in if mailTo dcf = [] \<or> mailFrom dcf = [] then Inr st
               else (case rateLimited env cf (mailTo dcf) st of
                       (True, st1) \<Rightarrow> Inr st1
                     | (False, st1) \<Rightarrow>
                         let sendmail = (if Sendmail cf \<noteq> [] then Sendmail cf else ''sendmail'')
                         in Inr (st1\<lparr>mailed := mailed st1 @
                              [\<lparr>m_command = sendmail,
                                m_args = [''-t'', ''-f'', mailFrom dcf],
                                m_stdin = mailText env dcf txt trace\<rparr>]\<rparr>))))"

text \<open>\<^verbatim>\<open>func diag(cf logconf, d *Diag, format string, args []interface{})\<close>\<close>

definition diag ::
  "'a env \<Rightarrow> logconf \<Rightarrow> ptr \<Rightarrow> string \<Rightarrow> 'a list \<Rightarrow> world \<Rightarrow> error + world" where
  "diag env cf d format args st =
     bindE (diag_text env cf d format args st) (\<lambda>out.
     bindE (if toStderr cf
            then bindE (deref st d) (\<lambda>h.
                   Inr (if useStderr h then st\<lparr>stderr_out := stderr_out st @ [out]\<rparr> else st))
            else Inr st) (\<lambda>st1.
     bindE (if slog st1 \<noteq> None then sendToSyslog (logprio cf) out st1 else Inr st1) (\<lambda>st2.
     if toEmail cf then sendEmail env d out (withTrace cf) st2 else Inr st2)))"

subsection \<open>The leveled calls\<close>

text \<open>\<^verbatim>\<open>func (d *Diag) Verbose(format string, args ...interface{})\<close>\<close>

definition Diag_Verbose ::
  "'a env \<Rightarrow> ptr \<Rightarrow> string \<Rightarrow> 'a list \<Rightarrow> world \<Rightarrow> error + world" where
  "Diag_Verbose env d format args st =
     diag env \<lparr>logprio = LOG_INFO, toStderr = True, toEmail = False, withInfo = False,
               withTrace = False\<rparr> d format args st"

text \<open>The condition of line 117, \<^verbatim>\<open>!d.debugAll && !cf.Debug[d.section] && !cf.Debug["all"]\<close>,
  negated: whether the Debug call goes on. \<^verbatim>\<open>cf\<close> is the result of \<^verbatim>\<open>getConfig()\<close> and
  is read only when \<^verbatim>\<open>d.debugAll\<close> is false.\<close>

definition debugEnabled :: "world \<Rightarrow> ptr \<Rightarrow> error + bool" where
  "debugEnabled st d =
     (let cf = getConfig st
      in bindE (deref st d) (\<lambda>h.
           if debugAll h then Inr True
           else (case cf of
                   None \<Rightarrow> Inl NilDereference
                 | Some c \<Rightarrow> Inr (debugFlag c (section' h) \<or> debugFlag c ''all''))))"

text \<open>\<^verbatim>\<open>func (d *Diag) Debug(format string, args ...interface{})\<close>\<close>

definition Diag_Debug ::
  "'a env \<Rightarrow> ptr \<Rightarrow> string \<Rightarrow> 'a list \<Rightarrow> world \<Rightarrow> error + world" where
  "Diag_Debug env d format args st =
     bindE (debugEnabled st d) (\<lambda>on.
       if \<not> on then Inr st
       else diag env \<lparr>logprio = LOG_DEBUG, toStderr = True, toEmail = False, withInfo = True,
                      withTrace = False\<rparr> d format args st)"

text \<open>\<^verbatim>\<open>func (d *Diag) Problem(format string, args ...interface{})\<close>\<close>

definition Diag_Problem ::
  "'a env \<Rightarrow> ptr \<Rightarrow> string \<Rightarrow> 'a list \<Rightarrow> world \<Rightarrow> error + world" where
  "Diag_Problem env d format args st =
     diag env \<lparr>logprio = LOG_WARNING, toStderr = True, toEmail = True, withInfo = True,
               withTrace = False\<rparr> d format args st"

text \<open>\<^verbatim>\<open>func (d *Diag) Bug(format string, args ...interface{})\<close>\<close>

definition Diag_Bug ::
  "'a env \<Rightarrow> ptr \<Rightarrow> string \<Rightarrow> 'a list \<Rightarrow> world \<Rightarrow> error + world" where
  "Diag_Bug env d format args st =
     diag env \<lparr>logprio = LOG_ERR, toStderr = True, toEmail = True, withInfo = True,
               withTrace = True\<rparr> d format args st"

text \<open>\<^verbatim>\<open>os.Exit(code)\<close>: the process ends with this status.\<close>

definition os_Exit :: "int \<Rightarrow> world \<Rightarrow> world" where
  "os_Exit code st = st\<lparr>exited := Some code\<rparr>"

text \<open>\<^verbatim>\<open>func (d *Diag) Fatal(format string, args ...interface{})\<close>\<close>

definition Diag_Fatal ::
  "'a env \<Rightarrow> ptr \<Rightarrow> string \<Rightarrow> 'a list \<Rightarrow> world \<Rightarrow> error + world" where
  "Diag_Fatal env d format args st =
     bindE (diag env \<lparr>logprio = LOG_ERR, toStderr = True, toEmail = True, withInfo = True,
                      withTrace = True\<rparr> d format args st)
       (\<lambda>st'. Inr (os_Exit (- 1) st'))"

text \<open>The package-level calls, on \<^verbatim>\<open>defaultDiag\<close>.\<close>

definition Verbose :: "'a env \<Rightarrow> string \<Rightarrow> 'a list \<Rightarrow> world \<Rightarrow> error + world" where
  "Verbose env format args st = Diag_Verbose env defaultDiag format args st"




subsection \<open>The dispatch table of the specification\<close>






subsection \<open>Auxiliary notions and a sample environment\<close>

text \<open>A string ends with a newline.\<close>

definition endsNewline :: "string \<Rightarrow> bool" where
  "endsNewline s = (s \<noteq> [] \<and> last s = nl)"

text \<open>A sample environment: \<^verbatim>\<open>fmt.Sprintf\<close> returns the format, as it does for a format
  without verbs and no arguments; the caller is not resolved; \<^verbatim>\<open>syslog.New\<close> succeeds.\<close>

definition env0 :: "'a env" where
  "env0 = \<lparr>Sprintf = (\<lambda>format args. format), Caller = (\<lambda>skip. None),
     FuncForPC = (\<lambda>pc. None), Now = 100000000000,
     syslog_New = (\<lambda>p tag. Some \<lparr>w_priority = p, w_tag = tag\<rparr>),
     hostname = ''host'', g_progname = ''prog'', Getpid = 1, Stack = ''goroutine 1'',
     unicode_ToLower = (\<lambda>s. s)\<rparr>"

text \<open>The effective value of a mail setting: the handle's override when it is not
  empty, else the value of the global configuration.\<close>

definition effective :: "string \<Rightarrow> string \<Rightarrow> string" where
  "effective override global = (if override \<noteq> [] then override else global)"

text \<open>The default handle as initialised, and the initial state with a given
  configuration, for the examples.\<close>

definition handle0 :: Diag where
  "handle0 = \<lparr>section' = ''default'', uplevel = 3, mailTo = [], mailFrom = [],
     progname = [], debugAll = False, useStderr = True\<rparr>"

definition world_cfg :: "Config \<Rightarrow> world" where
  "world_cfg cf = (init_world False)\<lparr>config := Some cf\<rparr>"

section \<open>Properties\<close>

subsection \<open>The store of handles\<close>

lemma deref_objs: "objs s = objs t \<Longrightarrow> deref s p = deref t p"
  by (simp add: deref_def split: option.splits)

lemma deref_alloc_old:
  "deref st q = Inr x \<Longrightarrow> deref (snd (alloc n st)) q = Inr x"
  by (auto simp: deref_def alloc_def nth_append split: option.splits if_splits)

lemma deref_alloc_new:
  "deref (snd (alloc n st)) (fst (alloc n st)) = Inr n"
  by (simp add: deref_def alloc_def)

lemma deref_alloc_fresh:
  "deref st (fst (alloc n st)) = Inl NilDereference"
  by (simp add: deref_def alloc_def)

lemma store_deref:
  assumes "deref st d = Inr h"
  shows "\<exists>st'. store d f st = Inr st' \<and> deref st' d = Inr (f h)
           \<and> (\<forall>q. q \<noteq> d \<longrightarrow> deref st' q = deref st q)
           \<and> length (objs st') = length (objs st)
           \<and> st' = st\<lparr>objs := objs st'\<rparr>"
  using assms
  by (cases d) (auto simp: deref_def store_def split: option.splits if_splits)

lemma deref_world_cfg: "deref (world_cfg cf) defaultDiag = Inr handle0"
  by (simp add: deref_def world_cfg_def init_world_def defaultDiag_def handle0_def)

lemma config_world_cfg: "config (world_cfg cf) = Some cf"
  by (simp add: world_cfg_def)

subsection \<open>The dispatch table\<close>


subsection \<open>Handle mutators\<close>

text \<open>
  C4, as amended. \<^verbatim>\<open>WithMailTo\<close>, \<^verbatim>\<open>WithMailFrom\<close> and the method \<^verbatim>\<open>Logger\<close> return a new
  handle, a copy of the original with the one field changed, and leave every existing
  handle as it was. \<^verbatim>\<open>SetDebugAll\<close> and \<^verbatim>\<open>SetStderr\<close> return nothing: they assign the flag
  in the handle they are called on, allocate no handle, and leave every other handle as it
  was.
\<close>

theorem handle_mutators:
  assumes "deref st d = Inr h"
  shows "(\<exists>n st'. Diag_WithMailTo d e st = Inr (n, st') \<and> n \<noteq> d
            \<and> deref st n = Inl NilDereference
            \<and> deref st' n = Inr (h\<lparr>mailTo := e\<rparr>)
            \<and> (\<forall>q x. deref st q = Inr x \<longrightarrow> deref st' q = Inr x))
       \<and> (\<exists>n st'. Diag_WithMailFrom d e st = Inr (n, st') \<and> n \<noteq> d
            \<and> deref st n = Inl NilDereference
            \<and> deref st' n = Inr (h\<lparr>mailFrom := e\<rparr>)
            \<and> (\<forall>q x. deref st q = Inr x \<longrightarrow> deref st' q = Inr x))
       \<and> (\<exists>n st'. Diag_Logger d e st = Inr (n, st') \<and> n \<noteq> d
            \<and> deref st n = Inl NilDereference
            \<and> deref st' n = Inr (h\<lparr>section' := e\<rparr>)
            \<and> (\<forall>q x. deref st q = Inr x \<longrightarrow> deref st' q = Inr x))
       \<and> (\<exists>st'. Diag_SetDebugAll d b st = Inr st'
            \<and> deref st' d = Inr (h\<lparr>debugAll := b\<rparr>)
            \<and> length (objs st') = length (objs st)
            \<and> (\<forall>q. q \<noteq> d \<longrightarrow> deref st' q = deref st q))
       \<and> (\<exists>st'. Diag_SetStderr d b st = Inr st'
            \<and> deref st' d = Inr (h\<lparr>useStderr := b\<rparr>)
            \<and> length (objs st') = length (objs st)
            \<and> (\<forall>q. q \<noteq> d \<longrightarrow> deref st' q = deref st q))"
proof -
  have fresh: "fst (alloc n st) \<noteq> d" for n
    using assms deref_alloc_fresh [of st n] by auto
  have a: "\<exists>n st'. Inr (alloc m st) = Inr (n, st') \<and> n \<noteq> d
            \<and> deref st n = Inl NilDereference \<and> deref st' n = Inr m
            \<and> (\<forall>q x. deref st q = Inr x \<longrightarrow> deref st' q = Inr x)" for m
    using fresh [of m] deref_alloc_fresh [of st m] deref_alloc_new [of m st]
      deref_alloc_old [of st _ _ m]
    by (cases "alloc m st") auto
  have s: "\<exists>st'. store d f st = Inr st' \<and> deref st' d = Inr (f h)
            \<and> length (objs st') = length (objs st)
            \<and> (\<forall>q. q \<noteq> d \<longrightarrow> deref st' q = deref st q)" for f
    using store_deref [OF assms, of f] by blast
  show ?thesis
    using a [of "h\<lparr>mailTo := e\<rparr>"] a [of "h\<lparr>mailFrom := e\<rparr>"] a [of "h\<lparr>section' := e\<rparr>"]
      s [of "\<lambda>n. n\<lparr>debugAll := b\<rparr>"] s [of "\<lambda>n. n\<lparr>useStderr := b\<rparr>"] assms
    by (simp add: Diag_WithMailTo_def Diag_WithMailFrom_def Diag_Logger_def
        Diag_SetDebugAll_def Diag_SetStderr_def bindE_def)
qed

theorem handle_mutators_witness:
  "deref (init_world False) defaultDiag
     = Inr \<lparr>section' = ''default'', uplevel = 3, mailTo = [], mailFrom = [],
            progname = [], debugAll = False, useStderr = True\<rparr>
   \<and> (\<exists>n st'. Diag_WithMailTo defaultDiag ''ops@example.org'' (init_world False) = Inr (n, st')
         \<and> n \<noteq> defaultDiag
         \<and> deref st' n
             = Inr \<lparr>section' = ''default'', uplevel = 3, mailTo = ''ops@example.org'',
                 mailFrom = [], progname = [], debugAll = False, useStderr = True\<rparr>
         \<and> deref st' defaultDiag
             = Inr \<lparr>section' = ''default'', uplevel = 3, mailTo = [], mailFrom = [],
                 progname = [], debugAll = False, useStderr = True\<rparr>)
   \<and> (\<exists>st'. Diag_SetStderr defaultDiag False (init_world False) = Inr st'
         \<and> deref st' defaultDiag
             = Inr \<lparr>section' = ''default'', uplevel = 3, mailTo = [], mailFrom = [],
                 progname = [], debugAll = False, useStderr = False\<rparr>
         \<and> deref st' None = deref (init_world False) None)"
proof -
  have h: "deref (init_world False) defaultDiag
     = Inr \<lparr>section' = ''default'', uplevel = 3, mailTo = [], mailFrom = [],
            progname = [], debugAll = False, useStderr = True\<rparr>"
    by (simp add: deref_def init_world_def defaultDiag_def)
  have n: "None \<noteq> defaultDiag"
    by (simp add: defaultDiag_def)
  from handle_mutators [OF h, of "''ops@example.org''" False] h n show ?thesis
    by (simp only: Diag.simps) blast
qed

text \<open>
  C4 as stated fails for the two setters: \<^verbatim>\<open>SetDebugAll\<close> on the default handle changes
  the \<open>debugAll\<close> field of that very handle, and the store holds no new handle.
\<close>

theorem SetDebugAll_in_place_counterexample:
  "Diag_SetDebugAll defaultDiag True (init_world False)
     = Inr ((init_world False)\<lparr>objs :=
         [\<lparr>section' = ''default'', uplevel = 3, mailTo = [], mailFrom = [],
           progname = [], debugAll = True, useStderr = True\<rparr>]\<rparr>)
   \<and> deref (init_world False) defaultDiag
       = Inr \<lparr>section' = ''default'', uplevel = 3, mailTo = [], mailFrom = [],
           progname = [], debugAll = False, useStderr = True\<rparr>
   \<and> deref ((init_world False)\<lparr>objs :=
         [\<lparr>section' = ''default'', uplevel = 3, mailTo = [], mailFrom = [],
           progname = [], debugAll = True, useStderr = True\<rparr>]\<rparr>) defaultDiag
       = Inr \<lparr>section' = ''default'', uplevel = 3, mailTo = [], mailFrom = [],
           progname = [], debugAll = True, useStderr = True\<rparr>
   \<and> deref ((init_world False)\<lparr>objs :=
         [\<lparr>section' = ''default'', uplevel = 3, mailTo = [], mailFrom = [],
           progname = [], debugAll = True, useStderr = True\<rparr>]\<rparr>) defaultDiag
       \<noteq> deref (init_world False) defaultDiag"
  by (simp add: Diag_SetDebugAll_def store_def defaultDiag_def init_world_def deref_def)

subsection \<open>What a dispatch does to the state\<close>

lemma sendEmail_unfold:
  assumes "config st = Some cf" and "deref st d = Inr h"
  shows "sendEmail env d txt trace st =
     (let to = effective (mailTo h) (MailTo cf);
          from = effective (mailFrom h) (MailFrom cf);
          pn = effective (effective (progname h) (ProgName cf)) (g_progname env)
      in if to = [] \<or> from = [] then Inr st
         else if fst (rateLimited env cf to st) then Inr st
         else Inr (st\<lparr>mailSent := (mailSent st)(to \<mapsto> Now env),
                       mailed := mailed st @
                         [\<lparr>m_command = effective (Sendmail cf) ''sendmail'',
                           m_args = [''-t'', ''-f'', from],
                           m_stdin = mailText env (h\<lparr>mailTo := to, mailFrom := from,
                                        progname := pn\<rparr>) txt trace\<rparr>]\<rparr>))"
  using assms
  by (simp add: sendEmail_def getConfig_def bindE_def Let_def rateLimited_def effective_def
      split: if_splits)

lemma mailText_contains:
  "\<exists>a b. mailText env dcf txt trace = a @ ''error:'' @ [nl] @ txt @ [nl] @ b"
proof -
  have "mailText env dcf txt trace =
      (''To: '' @ mailTo dcf @ [nl] @ ''From: '' @ mailFrom dcf @ [nl]
       @ ''Subject: '' @ progname dcf @ '' daemon error'' @ [nl, nl]
       @ ''an error was detected in '' @ progname dcf @ [nl, nl]
       @ ''host:   '' @ hostname env @ [nl]
       @ ''pid:    '' @ itoa (Getpid env) @ [nl, nl])
      @ ''error:'' @ [nl] @ txt @ [nl]
      @ (if trace then [nl, nl] @ take stackMax (Stack env) @ [nl] else [])"
    by (simp add: mailText_def)
  then show ?thesis by blast
qed

lemma mailText_header:
  "\<exists>rest. mailText env dcf msg trace
     = ''To: '' @ mailTo dcf @ [nl] @ ''From: '' @ mailFrom dcf @ [nl] @ rest"
  by (simp add: mailText_def)

lemma sendEmail_frame:
  assumes "sendEmail env d txt trace st = Inr st'"
  shows "objs st' = objs st \<and> config st' = config st \<and> slog st' = slog st
       \<and> stderr_out st' = stderr_out st \<and> syslog_out st' = syslog_out st
       \<and> exited st' = exited st
       \<and> (mailed st' = mailed st
          \<or> (\<exists>m a b. mailed st' = mailed st @ [m]
                \<and> m_stdin m = a @ ''error:'' @ [nl] @ txt @ [nl] @ b))"
proof (cases "config st")
  case None
  with assms show ?thesis by (simp add: sendEmail_def getConfig_def)
next
  case (Some cf)
  show ?thesis
  proof (cases "deref st d")
    case (Inl e)
    with assms Some show ?thesis by (simp add: sendEmail_def getConfig_def bindE_def)
  next
    case (Inr h)
    note u = sendEmail_unfold [OF Some Inr, of env "txt" trace]
    note mt = mailText_contains [of env _ "txt" trace]
    from assms mt show ?thesis
      unfolding u Let_def by (auto split: if_splits)
  qed
qed

lemma sendToSyslog_frame:
  assumes "sendToSyslog prio msg st = Inr st'"
  shows "st' = st\<lparr>syslog_out := syslog_out st'\<rparr>
       \<and> (syslog_out st' = syslog_out st \<or> syslog_out st' = syslog_out st @ [(prio, msg)])"
  using assms by (auto simp: sendToSyslog_def split: if_splits option.splits)

lemma callsite_not_endsNewline:
  assumes "callsite env h = Inr pre"
  shows "\<not> endsNewline pre"
  using assms
  by (auto simp: callsite_def bindE_def endsNewline_def nl_def
      split: option.splits sum.splits)

lemma diag_text_shape:
  assumes "diag_text env cf d format args st = Inr out"
  shows "format \<noteq> []
       \<and> (\<exists>pre. \<not> endsNewline pre
            \<and> out = pre @ Sprintf env (if last format = nl then butlast format else format) args)"
proof -
  from assms obtain pre where
    pre: "(if withInfo cf then bindE (deref st d) (callsite env) else Inr []) = Inr pre"
    and rest: "bindE (trimNewline format) (\<lambda>format'. Inr (pre @ Sprintf env format' args))
                 = Inr out"
    by (auto simp: diag_text_def bindE_def split: sum.splits)
  from pre have "\<not> endsNewline pre"
    by (auto simp: bindE_def endsNewline_def split: if_splits sum.splits
        dest: callsite_not_endsNewline)
  moreover from rest have "format \<noteq> []"
    and "out = pre @ Sprintf env (if last format = nl then butlast format else format) args"
    by (auto simp: trimNewline_def bindE_def split: if_splits)
  ultimately show ?thesis by blast
qed

lemma endsNewline_append:
  "\<not> endsNewline pre \<Longrightarrow> endsNewline (pre @ body) \<longleftrightarrow> endsNewline body"
  by (cases "body = []") (auto simp: endsNewline_def)

lemma diag_frame:
  assumes "diag env cf d format args st = Inr st'"
  shows "\<exists>out. diag_text env cf d format args st = Inr out
       \<and> objs st' = objs st \<and> config st' = config st \<and> slog st' = slog st
       \<and> exited st' = exited st
       \<and> stderr_out st' = stderr_out st
             @ (if toStderr cf \<and> (\<exists>h. deref st d = Inr h \<and> useStderr h) then [out] else [])
       \<and> (syslog_out st' = syslog_out st
          \<or> syslog_out st' = syslog_out st @ [(logprio cf, out)])
       \<and> (mailed st' = mailed st
          \<or> (\<exists>m a b. mailed st' = mailed st @ [m]
                \<and> m_stdin m = a @ ''error:'' @ [nl] @ out @ [nl] @ b))"
proof -
  from assms obtain out st1 st2 where
    out: "diag_text env cf d format args st = Inr out"
    and s1: "(if toStderr cf
            then bindE (deref st d) (\<lambda>h.
                   Inr (if useStderr h then st\<lparr>stderr_out := stderr_out st @ [out]\<rparr> else st))
            else Inr st) = Inr st1"
    and s2: "(if slog st1 \<noteq> None then sendToSyslog (logprio cf) out st1 else Inr st1) = Inr st2"
    and s3: "(if toEmail cf then sendEmail env d out (withTrace cf) st2 else Inr st2) = Inr st'"
    by (auto simp: diag_def bindE_def split: sum.splits)
  from s1 have f1: "st1 = st\<lparr>stderr_out := stderr_out st1\<rparr>
      \<and> stderr_out st1 = stderr_out st
            @ (if toStderr cf \<and> (\<exists>h. deref st d = Inr h \<and> useStderr h) then [out] else [])"
    by (auto simp: bindE_def split: if_splits sum.splits)
  from s2 have f2: "st2 = st1\<lparr>syslog_out := syslog_out st2\<rparr>
      \<and> (syslog_out st2 = syslog_out st1
          \<or> syslog_out st2 = syslog_out st1 @ [(logprio cf, out)])"
    using sendToSyslog_frame [of "logprio cf" out st1 st2] by (auto split: if_splits)
  from s3 have f3: "objs st' = objs st2 \<and> config st' = config st2 \<and> slog st' = slog st2
       \<and> stderr_out st' = stderr_out st2 \<and> syslog_out st' = syslog_out st2
       \<and> exited st' = exited st2
       \<and> (mailed st' = mailed st2
          \<or> (\<exists>m a b. mailed st' = mailed st2 @ [m]
                \<and> m_stdin m = a @ ''error:'' @ [nl] @ out @ [nl] @ b))"
    using sendEmail_frame [of env d out "withTrace cf" st2 st'] by (auto split: if_splits)
  have g1: "objs st1 = objs st \<and> config st1 = config st \<and> slog st1 = slog st
      \<and> exited st1 = exited st \<and> syslog_out st1 = syslog_out st \<and> mailed st1 = mailed st"
    using f1 by (metis world.select_convs world.surjective world.update_convs(5))
  have g2: "objs st2 = objs st1 \<and> config st2 = config st1 \<and> slog st2 = slog st1
      \<and> exited st2 = exited st1 \<and> stderr_out st2 = stderr_out st1 \<and> mailed st2 = mailed st1"
    using f2 by (metis world.select_convs world.surjective world.update_convs(6))
  from out f1 f2 f3 g1 g2 show ?thesis by auto
qed

lemma Verbose_stderr:
  assumes "deref s d = Inr h" and "useStderr h" and "slog s = None" and "format \<noteq> []"
  shows "Diag_Verbose env d format args s
     = Inr (s\<lparr>stderr_out := stderr_out s
              @ [Sprintf env (if last format = nl then butlast format else format) args]\<rparr>)"
  using assms
  by (simp add: Diag_Verbose_def diag_def diag_text_def trimNewline_def bindE_def)

subsection \<open>The debug flags\<close>

lemma debugFlag_iff:
  "debugFlag cf k \<longleftrightarrow> (\<exists>m. Debug cf = Some m \<and> m k = Some True)"
  by (auto simp: debugFlag_def split: option.splits)

text \<open>
  C5. A Debug call returns at once, with the state as it was, exactly when the handle's
  \<open>debugAll\<close> is false and the debug map of the current configuration maps neither the
  handle's section nor the key \<^verbatim>\<open>all\<close> to true; otherwise it dispatches (and with stderr
  enabled on the handle the state changes). The configuration is read at the call: after
  \<^verbatim>\<open>SetDebugFlag\<close> sets the section's flag, the next call dispatches; after it clears the
  flag (and nothing else enables the handle) the next call is suppressed.
\<close>

theorem Debug_gate:
  assumes "deref st d = Inr h" and "config st = Some cf"
  shows "Diag_Debug env d format args st =
           (if \<not> debugAll h
               \<and> \<not> (\<exists>m. Debug cf = Some m \<and> m (section' h) = Some True)
               \<and> \<not> (\<exists>m. Debug cf = Some m \<and> m ''all'' = Some True)
            then Inr st
            else diag env \<lparr>logprio = LOG_DEBUG, toStderr = True, toEmail = False,
                   withInfo = True, withTrace = False\<rparr> d format args st)
     \<and> (SetDebugFlag (section' h) True st = Inr st1 \<longrightarrow>
           deref st1 d = Inr h
           \<and> Diag_Debug env d format args st1 =
               diag env \<lparr>logprio = LOG_DEBUG, toStderr = True, toEmail = False,
                   withInfo = True, withTrace = False\<rparr> d format args st1)
     \<and> (SetDebugFlag (section' h) False st = Inr st1 \<and> \<not> debugAll h
           \<and> \<not> (\<exists>m. Debug cf = Some m \<and> m ''all'' = Some True) \<longrightarrow>
           deref st1 d = Inr h \<and> Diag_Debug env d format args st1 = Inr st1)
     \<and> (useStderr h \<and> Diag_Debug env d format args st = Inr st'
           \<and> (debugAll h \<or> (\<exists>m. Debug cf = Some m \<and> m (section' h) = Some True)
                \<or> (\<exists>m. Debug cf = Some m \<and> m ''all'' = Some True)) \<longrightarrow>
           st' \<noteq> st)"
proof -
  let ?b = "\<lparr>logprio = LOG_DEBUG, toStderr = True, toEmail = False,
                   withInfo = True, withTrace = False\<rparr>"
  have gate: "Diag_Debug env d format args s =
           (if \<not> debugAll h
               \<and> \<not> (\<exists>m. Debug c = Some m \<and> m (section' h) = Some True)
               \<and> \<not> (\<exists>m. Debug c = Some m \<and> m ''all'' = Some True)
            then Inr s else diag env ?b d format args s)"
    if "deref s d = Inr h" and "config s = Some c" for s c
    using that
    by (simp add: Diag_Debug_def debugEnabled_def getConfig_def bindE_def Let_def
        debugFlag_iff)
  have g: "Diag_Debug env d format args st =
           (if \<not> debugAll h
               \<and> \<not> (\<exists>m. Debug cf = Some m \<and> m (section' h) = Some True)
               \<and> \<not> (\<exists>m. Debug cf = Some m \<and> m ''all'' = Some True)
            then Inr st else diag env ?b d format args st)"
    by (rule gate [OF assms])
  have set: "\<exists>m. Debug cf = Some m
        \<and> st1 = st\<lparr>config := Some (cf\<lparr>Debug := Some (m(section' h \<mapsto> v))\<rparr>)\<rparr>"
    if "SetDebugFlag (section' h) v st = Inr st1" for v
    using that assms(2) by (auto simp: SetDebugFlag_def split: option.splits)
  have on: "SetDebugFlag (section' h) True st = Inr st1 \<longrightarrow>
           deref st1 d = Inr h \<and> Diag_Debug env d format args st1 = diag env ?b d format args st1"
  proof
    assume a: "SetDebugFlag (section' h) True st = Inr st1"
    from set [OF a] obtain m where m: "Debug cf = Some m"
      and s: "st1 = st\<lparr>config := Some (cf\<lparr>Debug := Some (m(section' h \<mapsto> True))\<rparr>)\<rparr>"
      by blast
    from s have "objs st1 = objs st" by simp
    from deref_objs [OF this, of d] assms(1) have d1: "deref st1 d = Inr h" by simp
    from s have c1: "config st1 = Some (cf\<lparr>Debug := Some (m(section' h \<mapsto> True))\<rparr>)"
      by simp
    from gate [OF d1 c1] d1
    show "deref st1 d = Inr h \<and> Diag_Debug env d format args st1 = diag env ?b d format args st1"
      by simp
  qed
  have off: "SetDebugFlag (section' h) False st = Inr st1 \<and> \<not> debugAll h
           \<and> \<not> (\<exists>m. Debug cf = Some m \<and> m ''all'' = Some True) \<longrightarrow>
           deref st1 d = Inr h \<and> Diag_Debug env d format args st1 = Inr st1"
  proof
    assume a: "SetDebugFlag (section' h) False st = Inr st1 \<and> \<not> debugAll h
           \<and> \<not> (\<exists>m. Debug cf = Some m \<and> m ''all'' = Some True)"
    from set [of False] a obtain m where m: "Debug cf = Some m"
      and s: "st1 = st\<lparr>config := Some (cf\<lparr>Debug := Some (m(section' h \<mapsto> False))\<rparr>)\<rparr>"
      by blast
    from s have "objs st1 = objs st" by simp
    from deref_objs [OF this, of d] assms(1) have d1: "deref st1 d = Inr h" by simp
    from s have c1: "config st1 = Some (cf\<lparr>Debug := Some (m(section' h \<mapsto> False))\<rparr>)"
      by simp
    from a m have "m ''all'' \<noteq> Some True" by simp
    with gate [OF d1 c1] d1 a
    show "deref st1 d = Inr h \<and> Diag_Debug env d format args st1 = Inr st1"
      by simp
  qed
  have vis: "useStderr h \<and> Diag_Debug env d format args st = Inr st'
           \<and> (debugAll h \<or> (\<exists>m. Debug cf = Some m \<and> m (section' h) = Some True)
                \<or> (\<exists>m. Debug cf = Some m \<and> m ''all'' = Some True)) \<longrightarrow>
           st' \<noteq> st"
  proof
    assume a: "useStderr h \<and> Diag_Debug env d format args st = Inr st'
           \<and> (debugAll h \<or> (\<exists>m. Debug cf = Some m \<and> m (section' h) = Some True)
                \<or> (\<exists>m. Debug cf = Some m \<and> m ''all'' = Some True))"
    with g have dg: "diag env ?b d format args st = Inr st'" by auto
    from diag_frame [OF dg] assms(1) a obtain out where
      "stderr_out st' = stderr_out st @ [out]"
      by auto
    then show "st' \<noteq> st" by auto
  qed
  from g on off vis show ?thesis by (intro conjI)
qed

theorem Debug_gate_witness:
  "deref (world_cfg (zeroConfig\<lparr>Debug := Some Map.empty\<rparr>)) defaultDiag = Inr handle0
   \<and> config (world_cfg (zeroConfig\<lparr>Debug := Some Map.empty\<rparr>))
       = Some (zeroConfig\<lparr>Debug := Some Map.empty\<rparr>)
   \<and> Diag_Debug (env0 :: unit env) defaultDiag ''x'' []
        (world_cfg (zeroConfig\<lparr>Debug := Some Map.empty\<rparr>))
       = Inr (world_cfg (zeroConfig\<lparr>Debug := Some Map.empty\<rparr>))
   \<and> SetDebugFlag ''default'' True (world_cfg (zeroConfig\<lparr>Debug := Some Map.empty\<rparr>))
       = Inr (world_cfg (zeroConfig\<lparr>Debug := Some [''default'' \<mapsto> True]\<rparr>))
   \<and> Diag_Debug (env0 :: unit env) defaultDiag ''x'' []
        (world_cfg (zeroConfig\<lparr>Debug := Some [''default'' \<mapsto> True]\<rparr>))
       = Inr ((world_cfg (zeroConfig\<lparr>Debug := Some [''default'' \<mapsto> True]\<rparr>))
               \<lparr>stderr_out := [''?:?: x'']\<rparr>)
   \<and> SetDebugFlag ''default'' False (world_cfg (zeroConfig\<lparr>Debug := Some Map.empty\<rparr>))
       = Inr (world_cfg (zeroConfig\<lparr>Debug := Some [''default'' \<mapsto> False]\<rparr>))
   \<and> Diag_Debug (env0 :: unit env) defaultDiag ''x'' []
        (world_cfg (zeroConfig\<lparr>Debug := Some [''default'' \<mapsto> False]\<rparr>))
       = Inr (world_cfg (zeroConfig\<lparr>Debug := Some [''default'' \<mapsto> False]\<rparr>))
   \<and> (world_cfg (zeroConfig\<lparr>Debug := Some [''default'' \<mapsto> True]\<rparr>))
               \<lparr>stderr_out := [''?:?: x'']\<rparr>
       \<noteq> world_cfg (zeroConfig\<lparr>Debug := Some [''default'' \<mapsto> True]\<rparr>)"
proof -
  let ?c = "zeroConfig\<lparr>Debug := Some Map.empty\<rparr>"
  let ?t = "zeroConfig\<lparr>Debug := Some [''default'' \<mapsto> True]\<rparr>"
  let ?b = "\<lparr>logprio = LOG_DEBUG, toStderr = True, toEmail = False,
                   withInfo = True, withTrace = False\<rparr>"
  have sec: "section' handle0 = ''default''" and da: "\<not> debugAll handle0"
    by (simp_all add: handle0_def)
  have on: "SetDebugFlag ''default'' True (world_cfg ?c)
       = Inr (world_cfg (zeroConfig\<lparr>Debug := Some [''default'' \<mapsto> True]\<rparr>))"
    and off: "SetDebugFlag ''default'' False (world_cfg ?c)
       = Inr (world_cfg (zeroConfig\<lparr>Debug := Some [''default'' \<mapsto> False]\<rparr>))"
    by (simp_all add: SetDebugFlag_def world_cfg_def zeroConfig_def)
  have dg: "diag (env0 :: unit env) ?b defaultDiag ''x'' [] (world_cfg c)
       = Inr ((world_cfg c)\<lparr>stderr_out := [''?:?: x'']\<rparr>)" for c
    by (simp add: diag_def diag_text_def callsite_def trimNewline_def bindE_def deref_def
        defaultDiag_def world_cfg_def init_world_def env0_def nl_def)
  have noall: "\<not> (\<exists>m. Debug ?c = Some m \<and> m ''all'' = Some True)"
    by (simp add: zeroConfig_def)
  note g1 = Debug_gate [OF deref_world_cfg [of ?c] config_world_cfg [of ?c],
      where env = "env0 :: unit env" and format = "''x''" and args = "[]"
        and ?st1.0 = "world_cfg (zeroConfig\<lparr>Debug := Some [''default'' \<mapsto> True]\<rparr>)"]
  note g2 = Debug_gate [OF deref_world_cfg [of ?c] config_world_cfg [of ?c],
      where env = "env0 :: unit env" and format = "''x''" and args = "[]"
        and ?st1.0 = "world_cfg (zeroConfig\<lparr>Debug := Some [''default'' \<mapsto> False]\<rparr>)"]
  from g1 have a: "Diag_Debug (env0 :: unit env) defaultDiag ''x'' [] (world_cfg ?c)
       = Inr (world_cfg ?c)"
    by (simp add: sec da zeroConfig_def)
  from g1 on dg
  have b: "Diag_Debug (env0 :: unit env) defaultDiag ''x'' []
        (world_cfg (zeroConfig\<lparr>Debug := Some [''default'' \<mapsto> True]\<rparr>))
       = Inr ((world_cfg (zeroConfig\<lparr>Debug := Some [''default'' \<mapsto> True]\<rparr>))
               \<lparr>stderr_out := [''?:?: x'']\<rparr>)"
    by (simp add: sec)
  from g2 off da noall
  have c: "Diag_Debug (env0 :: unit env) defaultDiag ''x'' []
        (world_cfg (zeroConfig\<lparr>Debug := Some [''default'' \<mapsto> False]\<rparr>))
       = Inr (world_cfg (zeroConfig\<lparr>Debug := Some [''default'' \<mapsto> False]\<rparr>))"
    by (simp add: sec)
  have us: "useStderr handle0"
    by (simp add: handle0_def)
  have gate_open: "\<exists>m. Debug ?t = Some m \<and> m (section' handle0) = Some True"
    by (simp add: sec)
  from Debug_gate [OF deref_world_cfg [of ?t] config_world_cfg [of ?t],
      where env = "env0 :: unit env" and format = "''x''" and args = "[]"
        and st' = "(world_cfg ?t)\<lparr>stderr_out := [''?:?: x'']\<rparr>"] b us gate_open
  have v: "(world_cfg ?t)\<lparr>stderr_out := [''?:?: x'']\<rparr> \<noteq> world_cfg ?t"
    by blast
  from deref_world_cfg [of ?c] config_world_cfg [of ?c] a on b off c v show ?thesis by blast
qed

text \<open>
  C10. \<^verbatim>\<open>SetDebugFlag\<close> panics (assignment to an entry of a nil map) whenever the debug map
  of the current configuration is nil: in the initial state, and after a \<^verbatim>\<open>SetConfig\<close>
  whose \<open>Debug\<close> field is nil. With a map configured it sets the entry.
\<close>

theorem SetDebugFlag_nil_map:
  "(config st = Some cf \<and> Debug cf = None \<longrightarrow> SetDebugFlag f v st = Inl NilMapAssignment)
   \<and> SetDebugFlag f v (init_world flagD) = Inl NilMapAssignment
   \<and> (Debug cf' = None \<longrightarrow> SetDebugFlag f v (SetConfig env cf' st) = Inl NilMapAssignment)
   \<and> (config st = Some cf \<and> Debug cf = Some m \<longrightarrow>
        SetDebugFlag f v st = Inr (st\<lparr>config := Some (cf\<lparr>Debug := Some (m(f \<mapsto> v))\<rparr>)\<rparr>))"
  by (simp add: SetDebugFlag_def init_world_def zeroConfig_def SetConfig_def openSyslog_def
      Let_def split: option.splits)

theorem SetDebugFlag_nil_map_witness:
  "config (init_world False) = Some zeroConfig \<and> Debug zeroConfig = None
   \<and> SetDebugFlag ''api'' True (init_world False) = Inl NilMapAssignment
   \<and> Debug (zeroConfig\<lparr>MailTo := ''ops@example.org''\<rparr>) = None
   \<and> SetDebugFlag ''api'' True
        (SetConfig (env0 :: unit env) (zeroConfig\<lparr>MailTo := ''ops@example.org''\<rparr>)
           (init_world False)) = Inl NilMapAssignment
   \<and> SetDebugFlag ''api'' True
        ((init_world False)\<lparr>config := Some (zeroConfig\<lparr>Debug := Some Map.empty\<rparr>)\<rparr>)
       = Inr ((init_world False)\<lparr>config :=
                Some (zeroConfig\<lparr>Debug := Some [''api'' \<mapsto> True]\<rparr>)\<rparr>)"
  using SetDebugFlag_nil_map [of "init_world False" zeroConfig "''api''" True False
      "zeroConfig\<lparr>MailTo := ''ops@example.org''\<rparr>" "env0 :: unit env" Map.empty]
    SetDebugFlag_nil_map [of
      "(init_world False)\<lparr>config := Some (zeroConfig\<lparr>Debug := Some Map.empty\<rparr>)\<rparr>"
      "zeroConfig\<lparr>Debug := Some Map.empty\<rparr>" "''api''" True False
      zeroConfig "env0 :: unit env" Map.empty]
  by (simp add: init_world_def zeroConfig_def)

subsection \<open>Formatting\<close>

text \<open>
  C7, as amended. The text handed to the sinks is the call-site prefix followed by
  \<^verbatim>\<open>fmt.Sprintf\<close> of the format with one trailing newline removed (when it ends with one).
  The prefix never ends with a newline, so the text ends with a newline exactly when that
  formatted output does: the single trailing newline of a format never reaches a sink, a
  second trailing newline or one produced by an argument does. Stderr, syslog and the mail
  body receive this same text.
\<close>

theorem sink_text_newline:
  assumes "diag env cf d format args st = Inr st'"
  shows "\<exists>pre.
           (let body = Sprintf env (if last format = nl then butlast format else format) args;
                out = pre @ body
            in format \<noteq> [] \<and> \<not> endsNewline pre
               \<and> (endsNewline out \<longleftrightarrow> endsNewline body)
               \<and> (stderr_out st' = stderr_out st \<or> stderr_out st' = stderr_out st @ [out])
               \<and> (syslog_out st' = syslog_out st
                    \<or> syslog_out st' = syslog_out st @ [(logprio cf, out)])
               \<and> (mailed st' = mailed st
                    \<or> (\<exists>m a b. mailed st' = mailed st @ [m]
                          \<and> m_stdin m = a @ ''error:'' @ [nl] @ out @ [nl] @ b)))"
proof -
  from diag_frame [OF assms] obtain out where
    t: "diag_text env cf d format args st = Inr out"
    and e: "stderr_out st' = stderr_out st
             @ (if toStderr cf \<and> (\<exists>h. deref st d = Inr h \<and> useStderr h) then [out] else [])"
    and l: "syslog_out st' = syslog_out st
          \<or> syslog_out st' = syslog_out st @ [(logprio cf, out)]"
    and m: "mailed st' = mailed st
          \<or> (\<exists>m a b. mailed st' = mailed st @ [m]
                \<and> m_stdin m = a @ ''error:'' @ [nl] @ out @ [nl] @ b)"
    by blast
  from diag_text_shape [OF t] obtain pre where
    f: "format \<noteq> []" and p: "\<not> endsNewline pre"
    and o: "out = pre @ Sprintf env (if last format = nl then butlast format else format) args"
    by blast
  from e have e': "stderr_out st' = stderr_out st \<or> stderr_out st' = stderr_out st @ [out]"
    by (simp split: if_splits)
  from f p o e' l m endsNewline_append [OF p] show ?thesis
    unfolding Let_def by blast
qed

theorem sink_text_newline_witness:
  "diag (env0 :: unit env)
      \<lparr>logprio = LOG_INFO, toStderr = True, toEmail = False, withInfo = False,
       withTrace = False\<rparr> defaultDiag (''boom'' @ [nl]) [] (init_world False)
     = Inr ((init_world False)\<lparr>stderr_out := [''boom'']\<rparr>)
   \<and> (\<exists>pre. \<not> endsNewline pre \<and> \<not> endsNewline (pre @ ''boom'')
         \<and> [''boom''] = [pre @ ''boom''])"
proof -
  have r: "diag (env0 :: unit env)
      \<lparr>logprio = LOG_INFO, toStderr = True, toEmail = False, withInfo = False,
       withTrace = False\<rparr> defaultDiag (''boom'' @ [nl]) [] (init_world False)
     = Inr ((init_world False)\<lparr>stderr_out := [''boom'']\<rparr>)"
    by (simp add: diag_def diag_text_def trimNewline_def bindE_def deref_def defaultDiag_def
        init_world_def env0_def)
  have b: "\<not> endsNewline ''boom''"
    by (simp add: endsNewline_def nl_def)
  from sink_text_newline [OF r] b r show ?thesis
    by (simp add: env0_def init_world_def Let_def)
qed

text \<open>
  C7 as stated fails: the format \<^verbatim>\<open>"x\n\n"\<close> without arguments loses one newline only, and
  the text written to stderr is \<^verbatim>\<open>"x\n"\<close>.
\<close>

theorem trailing_newline_counterexample:
  "Diag_Verbose (env0 :: unit env) defaultDiag (''x'' @ [nl, nl]) [] (init_world False)
     = Inr ((init_world False)\<lparr>stderr_out := [''x'' @ [nl]]\<rparr>)
   \<and> endsNewline (''x'' @ [nl])"
  by (simp add: Diag_Verbose_def diag_def diag_text_def trimNewline_def bindE_def deref_def
      defaultDiag_def init_world_def env0_def endsNewline_def)

text \<open>The call-site prefix. \<^verbatim>\<open>cleanFunName\<close> never panics and strips everything up to the
  last dot; \<^verbatim>\<open>cleanFilename\<close> panics exactly when the last separator of the path is its
  first byte, and otherwise returns the path or what follows one of its separators.\<close>

lemma LastIndexByte_range:
  "- 1 \<le> LastIndexByte s c \<and> LastIndexByte s c < int (length s)"
  by (induction s) (auto simp: Let_def)

lemma LastIndexByte_none: "LastIndexByte s c = - 1 \<longleftrightarrow> c \<notin> set s"
proof (induction s)
  case Nil
  show ?case by simp
next
  case (Cons x xs)
  with LastIndexByte_range [of xs c] show ?case
    by (auto simp: Let_def)
qed

lemma LastIndexByte_split:
  assumes "LastIndexByte s c = i" and "0 \<le> i"
  shows "s = take (nat i) s @ c # drop (nat i + 1) s \<and> c \<notin> set (drop (nat i + 1) s)"
  using assms
proof (induction s arbitrary: i)
  case Nil
  then show ?case by simp
next
  case (Cons x xs)
  show ?case
  proof (cases "LastIndexByte xs c = - 1")
    case True
    with Cons.prems have "x = c" and "i = 0"
      by (auto simp: Let_def split: if_splits)
    with True show ?thesis by (simp add: LastIndexByte_none)
  next
    case False
    with Cons.prems have i: "i = LastIndexByte xs c + 1"
      by (simp add: Let_def)
    from False LastIndexByte_range [of xs c] have nn: "0 \<le> LastIndexByte xs c" by arith
    from Cons.IH [OF refl nn] i nn show ?thesis
      by (simp add: nat_add_distrib)
  qed
qed

lemma cleanFunName_strips:
  "\<exists>r. cleanFunName n = Inr r \<and> CHR ''.'' \<notin> set r
       \<and> (n = r \<or> (\<exists>q. n = q @ CHR ''.'' # r))"
proof (cases "LastIndexByte n CHR ''.'' = - 1")
  case True
  then show ?thesis
    by (simp add: cleanFunName_def LastIndexByte_none)
next
  case False
  define i where "i = LastIndexByte n CHR ''.''"
  from False LastIndexByte_range [of n "CHR ''.''"] have r: "0 \<le> i" "i < int (length n)"
    by (simp_all add: i_def)
  from LastIndexByte_split [OF i_def [symmetric] r(1)]
  have s: "n = take (nat i) n @ CHR ''.'' # drop (nat i + 1) n"
    and f: "CHR ''.'' \<notin> set (drop (nat i + 1) n)"
    by blast+
  from False r have "cleanFunName n = Inr (drop (nat i + 1) n)"
    by (simp add: cleanFunName_def i_def [symmetric] slice_from_def slice_def nat_add_distrib)
  with s f show ?thesis by blast
qed

lemma cleanFilename_panics_iff:
  "(\<exists>e. cleanFilename file = Inl e) \<longleftrightarrow> LastIndexByte file CHR ''/'' = 0"
proof -
  define si where "si = LastIndexByte file CHR ''/''"
  from LastIndexByte_range [of "file" "CHR ''/''"]
  have r: "- 1 \<le> si" "si < int (length file)"
    by (simp_all add: si_def)
  show ?thesis
  proof (cases "si \<le> 0")
    case True
    with r show ?thesis
      unfolding si_def [symmetric]
      by (cases "si = 0")
        (auto simp: cleanFilename_def si_def [symmetric] slice_def bindE_def)
  next
    case False
    define pre where "pre = take (nat (si - 1)) file"
    from False r have p: "slice file 0 (si - 1) = Inr pre"
      by (simp add: slice_def pre_def)
    from LastIndexByte_range [of pre "CHR ''/''"] False r
    have q: "- 1 \<le> LastIndexByte pre CHR ''/''" "LastIndexByte pre CHR ''/'' < si"
      by (simp_all add: pre_def)
    from False r q p have "\<exists>x. cleanFilename file = Inr x"
      by (simp add: cleanFilename_def si_def [symmetric] bindE_def Let_def slice_from_def
          slice_def)
    with False show ?thesis
      unfolding si_def [symmetric] by auto
  qed
qed

lemma cleanFilename_suffix:
  assumes "cleanFilename file = Inr short"
  shows "file = short \<or> (\<exists>q. file = q @ CHR ''/'' # short)"
proof -
  define si where "si = LastIndexByte file CHR ''/''"
  from LastIndexByte_range [of "file" "CHR ''/''"]
  have r: "- 1 \<le> si" "si < int (length file)"
    by (simp_all add: si_def)
  from assms cleanFilename_panics_iff [of "file"] have n0: "si \<noteq> 0"
    by (auto simp: si_def)
  show ?thesis
  proof (cases "si = - 1")
    case True
    with assms show ?thesis
      by (simp add: cleanFilename_def si_def [symmetric])
  next
    case False
    with r n0 have pos: "1 \<le> si" by arith
    define pre where "pre = take (nat (si - 1)) file"
    define ssi where "ssi = LastIndexByte pre CHR ''/''"
    from pos r have p: "slice file 0 (si - 1) = Inr pre"
      by (simp add: slice_def pre_def)
    from LastIndexByte_range [of pre "CHR ''/''"] pos r
    have q: "- 1 \<le> ssi" "ssi < si - 1"
      by (simp_all add: pre_def ssi_def)
    show ?thesis
    proof (cases "ssi = - 1")
      case True
      with assms False p r pos have "short = drop (nat si + 1) file"
        by (simp add: cleanFilename_def si_def [symmetric] bindE_def Let_def
            ssi_def [symmetric] slice_from_def slice_def nat_add_distrib)
      with LastIndexByte_split [of "file" "CHR ''/''" si] pos show ?thesis
        by (auto simp: si_def)
    next
      case nf: False
      with q have s0: "0 \<le> ssi" by arith
      from assms False p r pos nf q s0 have sh: "short = drop (nat ssi + 1) file"
        by (simp add: cleanFilename_def si_def [symmetric] bindE_def Let_def
            ssi_def [symmetric] slice_from_def slice_def nat_add_distrib)
      from LastIndexByte_split [of pre "CHR ''/''" ssi] s0
      have sp: "pre = take (nat ssi) pre @ CHR ''/'' # drop (nat ssi + 1) pre"
        by (simp add: ssi_def)
      have le: "nat ssi + 1 \<le> nat (si - 1)"
        using q s0 by arith
      have len: "length pre = nat (si - 1)"
        using r pos by (simp add: pre_def)
      have f: "file = pre @ drop (nat (si - 1)) file"
        by (simp add: pre_def)
      have "drop (nat ssi + 1) file = drop (nat ssi + 1) pre @ drop (nat (si - 1)) file"
        using le len by (subst f) simp
      with sh sp f have "file = take (nat ssi) pre @ CHR ''/'' # short"
        by (metis append_Cons append_assoc)
      then show ?thesis by blast
    qed
  qed
qed

lemma callsite_resolved:
  assumes "Caller env (uplevel h) = Some (pc, file, line)"
    and "FuncForPC env pc = Some name"
    and "LastIndexByte file CHR ''/'' \<noteq> 0"
  shows "\<exists>short fn. callsite env h = Inr (short @ '':'' @ itoa line @ '' '' @ fn @ ''(): '')
           \<and> (file = short \<or> (\<exists>q. file = q @ CHR ''/'' # short))
           \<and> CHR ''.'' \<notin> set fn \<and> (name = fn \<or> (\<exists>q. name = q @ CHR ''.'' # fn))"
proof -
  from assms(3) cleanFilename_panics_iff [of "file"] obtain short where
    s: "cleanFilename file = Inr short"
    by (cases "cleanFilename file") auto
  from cleanFunName_strips [of name] obtain fn where
    f: "cleanFunName name = Inr fn" "CHR ''.'' \<notin> set fn"
      "name = fn \<or> (\<exists>q. name = q @ CHR ''.'' # fn)"
    by blast
  from assms(1,2) s f(1)
  have "callsite env h = Inr (short @ '':'' @ itoa line @ '' '' @ fn @ ''(): '')"
    by (simp add: callsite_def bindE_def)
  with cleanFilename_suffix [OF s] f(2,3) show ?thesis by blast
qed

text \<open>
  C6. The specification has every resolved caller give the prefix
  \<^verbatim>\<open>dir/file:line func(): \<close>. \<^verbatim>\<open>cleanFilename\<close> searches for the second separator in
  \<^verbatim>\<open>file[0:si-1]\<close>: for a source path whose only separator is its first byte the upper
  bound is -1 and the slice expression panics, so no prefix and no message is produced.
  The same bound skips the byte before the last separator, so a path with an empty
  segment there keeps three segments.
\<close>

theorem cleanFilename_root_file_panics:
  "cleanFilename ''/main.go'' = Inl SliceBoundsOutOfRange
   \<and> Diag_Problem
        (env\<lparr>Caller := (\<lambda>skip. Some (0, ''/main.go'', 10)),
             FuncForPC := (\<lambda>pc. Some ''main.main'')\<rparr>)
        defaultDiag ''x=%d'' args (init_world False) = Inl SliceBoundsOutOfRange
   \<and> cleanFilename ''/a/b//c.go'' = Inr ''b//c.go''"
  by (simp add: cleanFilename_def slice_def slice_from_def bindE_def Diag_Problem_def diag_def
      diag_text_def callsite_def deref_def defaultDiag_def init_world_def)

lemma diag_empty_format: "\<exists>e. diag env cf d [] args st = Inl e"
  by (simp add: diag_def diag_text_def trimNewline_def bindE_def split: sum.splits)

text \<open>
  C3. The specification has no leveled call raise an error to its caller. The code indexes
  the last byte of the format before it looks at its length: on the empty format,
  \<^verbatim>\<open>Verbose\<close> panics with an index out of range, on every handle and in every state, as
  does the package-level call; \<^verbatim>\<open>Problem\<close>, \<^verbatim>\<open>Bug\<close> and \<^verbatim>\<open>Fatal\<close> panic as well.
\<close>

theorem empty_format_panics:
  "Diag_Verbose env d [] args st = Inl IndexOutOfRange
   \<and> Verbose env [] args st = Inl IndexOutOfRange
   \<and> (\<exists>e. Diag_Problem env d [] args st = Inl e)
   \<and> (\<exists>e. Diag_Bug env d [] args st = Inl e)
   \<and> (\<exists>e. Diag_Fatal env d [] args st = Inl e)"
proof -
  have v: "Diag_Verbose env' d' [] args st = Inl IndexOutOfRange" for env' :: "'a env" and d'
    by (simp add: Diag_Verbose_def diag_def diag_text_def trimNewline_def bindE_def)
  have p: "\<exists>e. Diag_Problem env d [] args st = Inl e"
    and b: "\<exists>e. Diag_Bug env d [] args st = Inl e"
    unfolding Diag_Problem_def Diag_Bug_def by (rule diag_empty_format)+
  from b have f: "\<exists>e. Diag_Fatal env d [] args st = Inl e"
    by (auto simp: Diag_Bug_def Diag_Fatal_def bindE_def)
  from v p b f show ?thesis
    by (simp add: Verbose_def)
qed

subsection \<open>Email\<close>

text \<open>
  C2. For every recipient and window, \<^verbatim>\<open>rateLimited\<close> blocks exactly when the current time is
  at or before the last send to the recipient plus the window, and then leaves the state
  (the ledger included) as it was; otherwise it records the current time as the
  recipient's last send and permits. A configured window of zero stands for one minute.
\<close>

theorem rateLimited_window:
  assumes "rateLimited env cf addr st = (blocked, st')"
  shows "(blocked \<longleftrightarrow>
            Now env \<le> lastSent st addr
              + (if MailRateLimit cf = 0 then 60 * 1000000000 else MailRateLimit cf))
       \<and> (blocked \<longrightarrow> st' = st)
       \<and> (\<not> blocked \<longrightarrow>
            st' = st\<lparr>mailSent := (mailSent st)(addr \<mapsto> Now env)\<rparr>
            \<and> lastSent st' addr = Now env)"
  using assms
  by (auto simp: rateLimited_def rateLimit_def lastSent_def Let_def split: if_splits)

text \<open>The first alert to a recipient passes, with the default window; a second one at
  the same time is blocked.\<close>

theorem rateLimited_window_witness:
  "rateLimited (env0 :: unit env) zeroConfig ''ops@example.org'' (init_world False)
     = (False, (init_world False)\<lparr>mailSent := [''ops@example.org'' \<mapsto> 100000000000]\<rparr>)
   \<and> \<not> (Now (env0 :: unit env) \<le> lastSent (init_world False) ''ops@example.org''
              + (if MailRateLimit zeroConfig = 0 then 60 * 1000000000
                 else MailRateLimit zeroConfig))
   \<and> rateLimited (env0 :: unit env) zeroConfig ''ops@example.org''
        ((init_world False)\<lparr>mailSent := [''ops@example.org'' \<mapsto> 100000000000]\<rparr>)
     = (True, (init_world False)\<lparr>mailSent := [''ops@example.org'' \<mapsto> 100000000000]\<rparr>)
   \<and> Now (env0 :: unit env)
        \<le> lastSent ((init_world False)\<lparr>mailSent := [''ops@example.org'' \<mapsto> 100000000000]\<rparr>)
             ''ops@example.org''
           + (if MailRateLimit zeroConfig = 0 then 60 * 1000000000
              else MailRateLimit zeroConfig)"
proof -
  let ?s = "(init_world False)\<lparr>mailSent := [''ops@example.org'' \<mapsto> 100000000000]\<rparr>"
  have r: "rateLimited (env0 :: unit env) zeroConfig ''ops@example.org'' (init_world False)
     = (False, ?s)"
    by (simp add: rateLimited_def env0_def zeroConfig_def init_world_def lastSent_def
        rateLimit_def)
  have b: "rateLimited (env0 :: unit env) zeroConfig ''ops@example.org'' ?s = (True, ?s)"
    by (simp add: rateLimited_def env0_def zeroConfig_def init_world_def lastSent_def
        rateLimit_def)
  from rateLimited_window [OF r] have
    1: "\<not> (Now (env0 :: unit env) \<le> lastSent (init_world False) ''ops@example.org''
              + (if MailRateLimit zeroConfig = 0 then 60 * 1000000000
                 else MailRateLimit zeroConfig))"
    by blast
  from rateLimited_window [OF b] have
    2: "Now (env0 :: unit env) \<le> lastSent ?s ''ops@example.org''
           + (if MailRateLimit zeroConfig = 0 then 60 * 1000000000
              else MailRateLimit zeroConfig)"
    by blast
  from r 1 b 2 show ?thesis by blast
qed

text \<open>
  C8. In \<^verbatim>\<open>sendEmail\<close> the effective recipient and sender are the handle's overrides when
  not empty, else the values of the global configuration. If either is empty the call
  returns with the state as it was: no mail transport is started and the ledger is not
  touched. Otherwise the rate limiter is asked about the effective recipient; when it
  permits, the transport is started with the effective sender as its \<^verbatim>\<open>-f\<close> argument and
  the two addresses in the \<^verbatim>\<open>To:\<close> and \<^verbatim>\<open>From:\<close> headers.
\<close>

theorem sendEmail_addresses:
  assumes "config st = Some cf" and "deref st d = Inr h"
  shows "(let to = (if mailTo h \<noteq> [] then mailTo h else MailTo cf);
              from = (if mailFrom h \<noteq> [] then mailFrom h else MailFrom cf)
          in (to = [] \<or> from = [] \<longrightarrow> sendEmail env d msg trace st = Inr st)
           \<and> (to \<noteq> [] \<and> from \<noteq> [] \<and> fst (rateLimited env cf to st) \<longrightarrow>
                sendEmail env d msg trace st = Inr st)
           \<and> (to \<noteq> [] \<and> from \<noteq> [] \<and> \<not> fst (rateLimited env cf to st) \<longrightarrow>
                (\<exists>m rest. sendEmail env d msg trace st
                     = Inr (st\<lparr>mailSent := (mailSent st)(to \<mapsto> Now env),
                               mailed := mailed st @ [m]\<rparr>)
                   \<and> m_args m = [''-t'', ''-f'', from]
                   \<and> m_stdin m = ''To: '' @ to @ [nl] @ ''From: '' @ from @ [nl] @ rest)))"
proof -
  define to where "to = effective (mailTo h) (MailTo cf)"
  define frm where "frm = effective (mailFrom h) (MailFrom cf)"
  define pn where "pn = effective (effective (progname h) (ProgName cf)) (g_progname env)"
  define dcf where "dcf = h\<lparr>mailTo := to, mailFrom := frm, progname := pn\<rparr>"
  define m where "m = \<lparr>m_command = effective (Sendmail cf) ''sendmail'',
      m_args = [''-t'', ''-f'', frm], m_stdin = mailText env dcf msg trace\<rparr>"
  have u: "sendEmail env d msg trace st =
      (if to = [] \<or> frm = [] then Inr st
       else if fst (rateLimited env cf to st) then Inr st
       else Inr (st\<lparr>mailSent := (mailSent st)(to \<mapsto> Now env), mailed := mailed st @ [m]\<rparr>))"
    unfolding sendEmail_unfold [OF assms] Let_def to_def frm_def pn_def dcf_def m_def
    by (rule refl)
  from mailText_header [of env dcf msg trace] obtain rest where
    "m_stdin m = ''To: '' @ to @ [nl] @ ''From: '' @ frm @ [nl] @ rest"
    by (auto simp: m_def dcf_def)
  moreover have "m_args m = [''-t'', ''-f'', frm]"
    by (simp add: m_def)
  ultimately have ex: "\<exists>m' rest.
      Inr (st\<lparr>mailSent := (mailSent st)(to \<mapsto> Now env), mailed := mailed st @ [m]\<rparr>)
        = (Inr (st\<lparr>mailSent := (mailSent st)(to \<mapsto> Now env),
                   mailed := mailed st @ [m']\<rparr>) :: error + world)
      \<and> m_args m' = [''-t'', ''-f'', frm]
      \<and> m_stdin m' = ''To: '' @ to @ [nl] @ ''From: '' @ frm @ [nl] @ rest"
    by blast
  have "(to = [] \<or> frm = [] \<longrightarrow> sendEmail env d msg trace st = Inr st)
      \<and> (to \<noteq> [] \<and> frm \<noteq> [] \<and> fst (rateLimited env cf to st) \<longrightarrow>
            sendEmail env d msg trace st = Inr st)
      \<and> (to \<noteq> [] \<and> frm \<noteq> [] \<and> \<not> fst (rateLimited env cf to st) \<longrightarrow>
            (\<exists>m rest. sendEmail env d msg trace st
                 = Inr (st\<lparr>mailSent := (mailSent st)(to \<mapsto> Now env),
                           mailed := mailed st @ [m]\<rparr>)
               \<and> m_args m = [''-t'', ''-f'', frm]
               \<and> m_stdin m = ''To: '' @ to @ [nl] @ ''From: '' @ frm @ [nl] @ rest))"
    using ex unfolding u by simp
  then show ?thesis
    unfolding Let_def to_def frm_def effective_def .
qed

theorem sendEmail_addresses_witness:
  "config (world_cfg (zeroConfig\<lparr>MailTo := ''ops@example.org''\<rparr>))
     = Some (zeroConfig\<lparr>MailTo := ''ops@example.org''\<rparr>)
   \<and> deref (world_cfg (zeroConfig\<lparr>MailTo := ''ops@example.org''\<rparr>)) defaultDiag = Inr handle0
   \<and> sendEmail (env0 :: unit env) defaultDiag ''boom'' True
        (world_cfg (zeroConfig\<lparr>MailTo := ''ops@example.org''\<rparr>))
       = Inr (world_cfg (zeroConfig\<lparr>MailTo := ''ops@example.org''\<rparr>))
   \<and> (\<exists>m rest. sendEmail (env0 :: unit env) defaultDiag ''boom'' True
          (world_cfg (zeroConfig\<lparr>MailTo := ''ops@example.org'',
                                  MailFrom := ''daemon@example.org''\<rparr>))
        = Inr ((world_cfg (zeroConfig\<lparr>MailTo := ''ops@example.org'',
                                        MailFrom := ''daemon@example.org''\<rparr>))
                \<lparr>mailSent := [''ops@example.org'' \<mapsto> 100000000000], mailed := [m]\<rparr>)
        \<and> m_args m = [''-t'', ''-f'', ''daemon@example.org'']
        \<and> m_stdin m = ''To: ops@example.org'' @ [nl] @ ''From: daemon@example.org'' @ [nl]
             @ rest)
   \<and> sendEmail (env0 :: unit env) defaultDiag ''boom'' True
        ((world_cfg (zeroConfig\<lparr>MailTo := ''ops@example.org'',
                                 MailFrom := ''daemon@example.org''\<rparr>))
           \<lparr>mailSent := [''ops@example.org'' \<mapsto> 90000000000]\<rparr>)
       = Inr ((world_cfg (zeroConfig\<lparr>MailTo := ''ops@example.org'',
                                 MailFrom := ''daemon@example.org''\<rparr>))
           \<lparr>mailSent := [''ops@example.org'' \<mapsto> 90000000000]\<rparr>)"
proof -
  let ?a = "zeroConfig\<lparr>MailTo := ''ops@example.org''\<rparr>"
  let ?b = "zeroConfig\<lparr>MailTo := ''ops@example.org'', MailFrom := ''daemon@example.org''\<rparr>"
  let ?s = "(world_cfg ?b)\<lparr>mailSent := [''ops@example.org'' \<mapsto> 90000000000]\<rparr>"
  have h: "mailTo handle0 = []" "mailFrom handle0 = []"
    by (simp_all add: handle0_def)
  have ds: "deref ?s defaultDiag = Inr handle0" and cs: "config ?s = Some ?b"
    by (simp_all add: deref_def world_cfg_def init_world_def defaultDiag_def handle0_def)
  have free: "\<not> fst (rateLimited (env0 :: unit env) ?b ''ops@example.org'' (world_cfg ?b))"
    by (simp add: rateLimited_def env0_def zeroConfig_def rateLimit_def lastSent_def
        world_cfg_def init_world_def)
  have limited: "fst (rateLimited (env0 :: unit env) ?b ''ops@example.org'' ?s)"
    by (simp add: rateLimited_def env0_def zeroConfig_def rateLimit_def lastSent_def
        world_cfg_def init_world_def)
  have ea: "(if mailTo handle0 \<noteq> [] then mailTo handle0 else MailTo ?a) = ''ops@example.org''"
    and fa: "(if mailFrom handle0 \<noteq> [] then mailFrom handle0 else MailFrom ?a) = []"
    and eb: "(if mailTo handle0 \<noteq> [] then mailTo handle0 else MailTo ?b) = ''ops@example.org''"
    and fb: "(if mailFrom handle0 \<noteq> [] then mailFrom handle0 else MailFrom ?b)
               = ''daemon@example.org''"
    by (simp_all add: h zeroConfig_def)
  have ne: "''ops@example.org'' \<noteq> []" "''daemon@example.org'' \<noteq> []"
    by simp_all
  have now: "Now (env0 :: unit env) = 100000000000"
    and ms: "mailSent (world_cfg ?b) = Map.empty" and ml: "mailed (world_cfg ?b) = []"
    by (simp_all add: env0_def world_cfg_def init_world_def)
  note ia = sendEmail_addresses [OF config_world_cfg [of ?a] deref_world_cfg [of ?a],
      of "env0 :: unit env" "''boom''" True, unfolded Let_def ea fa]
  note ib = sendEmail_addresses [OF config_world_cfg [of ?b] deref_world_cfg [of ?b],
      of "env0 :: unit env" "''boom''" True, unfolded Let_def eb fb]
  note ic = sendEmail_addresses [OF cs ds,
      of "env0 :: unit env" "''boom''" True, unfolded Let_def eb fb]
  from ia have 1: "sendEmail (env0 :: unit env) defaultDiag ''boom'' True (world_cfg ?a)
       = Inr (world_cfg ?a)"
    by blast
  from ib free ne
  have "\<exists>m rest. sendEmail (env0 :: unit env) defaultDiag ''boom'' True (world_cfg ?b)
        = Inr ((world_cfg ?b)
                \<lparr>mailSent := (mailSent (world_cfg ?b))(''ops@example.org'' \<mapsto> Now (env0 :: unit env)),
                 mailed := mailed (world_cfg ?b) @ [m]\<rparr>)
        \<and> m_args m = [''-t'', ''-f'', ''daemon@example.org'']
        \<and> m_stdin m = ''To: '' @ ''ops@example.org'' @ [nl] @ ''From: ''
             @ ''daemon@example.org'' @ [nl] @ rest"
    by blast
  then have 2: "\<exists>m rest. sendEmail (env0 :: unit env) defaultDiag ''boom'' True (world_cfg ?b)
        = Inr ((world_cfg ?b)
                \<lparr>mailSent := [''ops@example.org'' \<mapsto> 100000000000], mailed := [m]\<rparr>)
        \<and> m_args m = [''-t'', ''-f'', ''daemon@example.org'']
        \<and> m_stdin m = ''To: ops@example.org'' @ [nl] @ ''From: daemon@example.org'' @ [nl]
             @ rest"
    unfolding now ms ml by simp
  from ic limited ne
  have 3: "sendEmail (env0 :: unit env) defaultDiag ''boom'' True ?s = Inr ?s"
    by blast
  from config_world_cfg [of ?a] deref_world_cfg [of ?a] 1 2 3 show ?thesis
    by blast
qed

subsection \<open>Configuration\<close>

lemma prioName_empty: "prioName [] = None"
  by (simp add: prioName_def)

lemma ToLower_empty: "ToLower env [] = []"
  by (simp add: ToLower_def)

text \<open>
  C9. \<^verbatim>\<open>SetConfig\<close> replaces the configuration that \<^verbatim>\<open>getConfig\<close> returns. When a syslog
  writer is open it is kept; when none is open, the facility name of the new configuration
  is lower-cased and looked up in \<^verbatim>\<open>prioName\<close> (so ASCII names that differ only in case
  find the same entry) and \<^verbatim>\<open>syslog.New\<close> is called with the result. An empty or unknown
  name leaves the writer closed and changes nothing but the configuration, and a
  following \<^verbatim>\<open>Verbose\<close> call on a handle with stderr enabled writes its line to stderr.
\<close>

theorem SetConfig_syslog:
  "getConfig (SetConfig env cf st) = Some cf
   \<and> objs (SetConfig env cf st) = objs st
   \<and> mailSent (SetConfig env cf st) = mailSent st
   \<and> (slog st \<noteq> None \<longrightarrow> slog (SetConfig env cf st) = slog st)
   \<and> (slog st = None \<longrightarrow>
        slog (SetConfig env cf st)
          = (case prioName (ToLower env (Facility cf)) of
               None \<Rightarrow> None
             | Some p \<Rightarrow> syslog_New env p (g_progname env)))
   \<and> (list_all (\<lambda>c. of_char c < (128::nat)) a \<and> list_all (\<lambda>c. of_char c < (128::nat)) b
        \<and> map lowerByte a = map lowerByte b \<longrightarrow>
        prioName (ToLower env a) = prioName (ToLower env b))
   \<and> (slog st = None
        \<and> (Facility cf = [] \<or> prioName (ToLower env (Facility cf)) = None) \<longrightarrow>
        SetConfig env cf st = st\<lparr>config := Some cf\<rparr>
        \<and> slog (SetConfig env cf st) = None
        \<and> (deref st d = Inr h \<and> useStderr h \<and> format \<noteq> [] \<longrightarrow>
             Diag_Verbose env' d format args (SetConfig env cf st)
               = Inr ((SetConfig env cf st)\<lparr>stderr_out := stderr_out st
                   @ [Sprintf env' (if last format = nl then butlast format else format)
                        args]\<rparr>)))"
proof -
  have c: "getConfig (SetConfig env cf st) = Some cf"
    and o: "objs (SetConfig env cf st) = objs st"
    and ms: "mailSent (SetConfig env cf st) = mailSent st"
    and e: "stderr_out (SetConfig env cf st) = stderr_out st"
    by (simp_all add: SetConfig_def openSyslog_def getConfig_def Let_def split: option.splits)
  have s1: "slog st \<noteq> None \<longrightarrow> slog (SetConfig env cf st) = slog st"
    by (simp add: SetConfig_def Let_def)
  have s2: "slog st = None \<longrightarrow>
        slog (SetConfig env cf st)
          = (case prioName (ToLower env (Facility cf)) of
               None \<Rightarrow> None
             | Some p \<Rightarrow> syslog_New env p (g_progname env))"
    by (simp add: SetConfig_def openSyslog_def Let_def split: option.splits)
  have ci: "list_all (\<lambda>c. of_char c < (128::nat)) a \<and> list_all (\<lambda>c. of_char c < (128::nat)) b
        \<and> map lowerByte a = map lowerByte b \<longrightarrow>
        prioName (ToLower env a) = prioName (ToLower env b)"
    by (simp add: ToLower_def)
  have u: "slog st = None
        \<and> (Facility cf = [] \<or> prioName (ToLower env (Facility cf)) = None) \<longrightarrow>
        SetConfig env cf st = st\<lparr>config := Some cf\<rparr>
        \<and> slog (SetConfig env cf st) = None
        \<and> (deref st d = Inr h \<and> useStderr h \<and> format \<noteq> [] \<longrightarrow>
             Diag_Verbose env' d format args (SetConfig env cf st)
               = Inr ((SetConfig env cf st)\<lparr>stderr_out := stderr_out st
                   @ [Sprintf env' (if last format = nl then butlast format else format)
                        args]\<rparr>))"
  proof (intro impI conjI)
    assume a: "slog st = None
        \<and> (Facility cf = [] \<or> prioName (ToLower env (Facility cf)) = None)"
    then have p: "prioName (ToLower env (Facility cf)) = None"
      by (auto simp: ToLower_empty prioName_empty)
    with a s2 show n: "slog (SetConfig env cf st) = None" by simp
    from a p show "SetConfig env cf st = st\<lparr>config := Some cf\<rparr>"
      by (simp add: SetConfig_def openSyslog_def Let_def)
    assume b: "deref st d = Inr h \<and> useStderr h \<and> format \<noteq> []"
    from deref_objs [OF o, of d] b have "deref (SetConfig env cf st) d = Inr h" by simp
    from Verbose_stderr [OF this _ n, of format env' args] b e
    show "Diag_Verbose env' d format args (SetConfig env cf st)
               = Inr ((SetConfig env cf st)\<lparr>stderr_out := stderr_out st
                   @ [Sprintf env' (if last format = nl then butlast format else format)
                        args]\<rparr>)"
      by simp
  qed
  from c o ms s1 s2 ci u show ?thesis by blast
qed

theorem SetConfig_syslog_witness:
  "slog (init_world False) = None
   \<and> prioName (ToLower (env0 :: unit env) ''bogus'') = None
   \<and> SetConfig (env0 :: unit env) (zeroConfig\<lparr>Facility := ''bogus''\<rparr>) (init_world False)
       = (init_world False)\<lparr>config := Some (zeroConfig\<lparr>Facility := ''bogus''\<rparr>)\<rparr>
   \<and> deref (init_world False) defaultDiag = Inr handle0 \<and> useStderr handle0
   \<and> Diag_Verbose (env0 :: unit env) defaultDiag ''started'' []
        (SetConfig (env0 :: unit env) (zeroConfig\<lparr>Facility := ''bogus''\<rparr>) (init_world False))
       = Inr ((SetConfig (env0 :: unit env) (zeroConfig\<lparr>Facility := ''bogus''\<rparr>)
                 (init_world False))\<lparr>stderr_out := [''started'']\<rparr>)
   \<and> slog (SetConfig (env0 :: unit env) (zeroConfig\<lparr>Facility := ''LOCAL5''\<rparr>)
              (init_world False))
       = Some \<lparr>w_priority = LOG_LOCAL5, w_tag = ''prog''\<rparr>
   \<and> prioName (ToLower (env0 :: unit env) ''Local5'')
       = prioName (ToLower (env0 :: unit env) ''LOCAL5'')
   \<and> slog (SetConfig (env0 :: unit env) (zeroConfig\<lparr>Facility := ''local5''\<rparr>)
              ((init_world False)\<lparr>slog := Some \<lparr>w_priority = LOG_USER, w_tag = ''prog''\<rparr>\<rparr>))
       = Some \<lparr>w_priority = LOG_USER, w_tag = ''prog''\<rparr>"
proof -
  let ?e = "env0 :: unit env"
  let ?bogus = "zeroConfig\<lparr>Facility := ''bogus''\<rparr>"
  have s0: "slog (init_world False) = None"
    by (simp add: init_world_def)
  have bogus: "prioName (ToLower ?e ''bogus'') = None"
    by code_simp
  have l5: "prioName (ToLower ?e ''LOCAL5'') = Some LOG_LOCAL5"
    by code_simp
  have fb: "Facility ?bogus = ''bogus''"
    and fl: "Facility (zeroConfig\<lparr>Facility := ''LOCAL5''\<rparr>) = ''LOCAL5''"
    by simp_all
  have d0: "deref (init_world False) defaultDiag = Inr handle0"
    by (simp add: deref_def init_world_def defaultDiag_def handle0_def)
  have us: "useStderr handle0"
    by (simp add: handle0_def)
  have asc: "list_all (\<lambda>c. of_char c < (128::nat)) ''Local5''"
      "list_all (\<lambda>c. of_char c < (128::nat)) ''LOCAL5''"
    by simp_all
  have same: "map lowerByte ''Local5'' = map lowerByte ''LOCAL5''"
    by code_simp
  note t1 = SetConfig_syslog [where env = ?e and cf = ?bogus and st = "init_world False"
      and d = defaultDiag and h = handle0 and format = "''started''" and env' = ?e
      and args = "[]" and a = "''Local5''" and b = "''LOCAL5''", unfolded fb]
  from t1 s0 bogus
  have 1: "SetConfig ?e ?bogus (init_world False) = (init_world False)\<lparr>config := Some ?bogus\<rparr>"
    by blast
  have so: "stderr_out (init_world False) = []"
    by (simp add: init_world_def)
  have sp: "Sprintf ?e (if last ''started'' = nl then butlast ''started'' else ''started'') []
      = ''started''"
    by (simp add: env0_def nl_def)
  have ne: "''started'' \<noteq> []"
    by simp
  from t1 s0 bogus d0 us ne
  have "Diag_Verbose ?e defaultDiag ''started'' [] (SetConfig ?e ?bogus (init_world False))
       = Inr ((SetConfig ?e ?bogus (init_world False))\<lparr>stderr_out := stderr_out (init_world False)
           @ [Sprintf ?e (if last ''started'' = nl then butlast ''started'' else ''started'')
                []]\<rparr>)"
    by blast
  then have 2: "Diag_Verbose ?e defaultDiag ''started'' []
        (SetConfig ?e ?bogus (init_world False))
       = Inr ((SetConfig ?e ?bogus (init_world False))\<lparr>stderr_out := [''started'']\<rparr>)"
    unfolding so sp by simp
  from t1 asc same
  have 3: "prioName (ToLower ?e ''Local5'') = prioName (ToLower ?e ''LOCAL5'')"
    by blast
  from SetConfig_syslog [where env = ?e and cf = "zeroConfig\<lparr>Facility := ''LOCAL5''\<rparr>"
      and st = "init_world False", unfolded fl] s0 l5
  have 4: "slog (SetConfig ?e (zeroConfig\<lparr>Facility := ''LOCAL5''\<rparr>) (init_world False))
       = Some \<lparr>w_priority = LOG_LOCAL5, w_tag = ''prog''\<rparr>"
    by (simp add: env0_def)
  from SetConfig_syslog [where env = ?e and cf = "zeroConfig\<lparr>Facility := ''local5''\<rparr>"
      and st = "(init_world False)\<lparr>slog := Some \<lparr>w_priority = LOG_USER, w_tag = ''prog''\<rparr>\<rparr>"]
  have 5: "slog (SetConfig ?e (zeroConfig\<lparr>Facility := ''local5''\<rparr>)
              ((init_world False)\<lparr>slog := Some \<lparr>w_priority = LOG_USER, w_tag = ''prog''\<rparr>\<rparr>))
       = Some \<lparr>w_priority = LOG_USER, w_tag = ''prog''\<rparr>"
    by simp
  from s0 bogus 1 d0 us 2 4 3 5 show ?thesis by blast
qed

end
